theory Spec2Isabelle
  imports Main
begin

section \<open>Fact records as dictionaries\<close>

text \<open>
  The extraction pipeline and the merger of \<^verbatim>\<open>app/main.py\<close> work on values of the
  declared type \<^verbatim>\<open>Dict[str, Optional[str]]\<close>. A dictionary is a partial map from keys to values;
  a value is \<open>None\<close> (the missing sentinel) or \<open>Some s\<close> for a string \<open>s\<close>. A key that is
  not in the dictionary is \<open>None\<close> at the level of the map, so \<open>d k = Some None\<close> reads
  "key \<open>k\<close> is present and holds the missing sentinel".
\<close>

type_synonym pyval = "string option"
type_synonym facts = "string \<rightharpoonup> pyval"

text \<open>\<^verbatim>\<open>LEASE_FACTS_SCHEMA\<close>, in the order the source writes its items.\<close>

definition LEASE_FACTS_SCHEMA_items :: "(string \<times> pyval) list" where
  "LEASE_FACTS_SCHEMA_items =
     [(''tenant_name'', None),
      (''landlord_name'', None),
      (''property_address'', None),
      (''suite'', None),
      (''property_address_and_suite'', None),
      (''total_square_feet'', None),
      (''lease_commencement_date'', None),
      (''lease_expiration_date'', None),
      (''proportionate_share'', None),
      (''base_year'', None),
      (''security_deposit'', None)]"

definition LEASE_FACTS_SCHEMA :: facts where
  "LEASE_FACTS_SCHEMA = map_of LEASE_FACTS_SCHEMA_items"

text \<open>Python truthiness of an \<^verbatim>\<open>Optional[str]\<close>: \<^verbatim>\<open>None\<close> and \<^verbatim>\<open>""\<close> are falsy.\<close>

definition truthy :: "pyval \<Rightarrow> bool" where
  "truthy v = (case v of None \<Rightarrow> False | Some s \<Rightarrow> s \<noteq> [])"

text \<open>\<^verbatim>\<open>a or b\<close>.\<close>

definition py_or :: "pyval \<Rightarrow> pyval \<Rightarrow> pyval" where
  "py_or a b = (if truthy a then a else b)"

text \<open>\<^verbatim>\<open>d.get(key)\<close>: the value, or \<^verbatim>\<open>None\<close> for a key that is not there.\<close>

definition dict_get :: "facts \<Rightarrow> string \<Rightarrow> pyval" where
  "dict_get d key = (case d key of None \<Rightarrow> None | Some v \<Rightarrow> v)"

text \<open>
  \<^verbatim>\<open>_format_facts_output\<close> is also called on what \<^verbatim>\<open>json.loads\<close> returns, and a value
  of that dictionary need not be a string: it can be a number, a boolean, a list or
  an object. So the formatter's dictionaries hold objects: \<^verbatim>\<open>None\<close>, a string, or a
  value of another kind, which the formatter never looks into.
\<close>

datatype 'a pyobject = PyNone | PyStr string | PyOther 'a

text \<open>An \<^verbatim>\<open>Optional[str]\<close> as an object.\<close>

definition of_pyval :: "pyval \<Rightarrow> 'a pyobject" where
  "of_pyval v = (case v of None \<Rightarrow> PyNone | Some s \<Rightarrow> PyStr s)"

text \<open>
  \<^verbatim>\<open>_format_facts_output\<close>: a copy of the schema, updated with the comprehension
  \<^verbatim>\<open>{k: (v if v not in ("", None) else None) for k, v in facts.items() if k in out}\<close>.
  The test \<^verbatim>\<open>v not in ("", None)\<close> compares \<^verbatim>\<open>v\<close> with the empty string and with
  \<^verbatim>\<open>None\<close>; a value of another kind equals neither and is kept.
\<close>

definition format_value :: "'a pyobject \<Rightarrow> 'a pyobject" where
  "format_value v = (if v = PyStr [] \<or> v = PyNone then PyNone else v)"

definition format_facts_output :: "(string \<rightharpoonup> 'a pyobject) \<Rightarrow> (string \<rightharpoonup> 'a pyobject)" where
  "format_facts_output facts =
     (let out = map_option of_pyval \<circ> LEASE_FACTS_SCHEMA
      in out ++ (\<lambda>k. if out k = None then None else map_option format_value (facts k)))"

text \<open>
  \<^verbatim>\<open>_merge_facts\<close>: a copy of the schema whose keys are visited in order, each one
  assigned \<^verbatim>\<open>primary.get(key) or secondary.get(key)\<close>.
\<close>

definition merge_facts :: "facts \<Rightarrow> facts \<Rightarrow> facts" where
  "merge_facts primary secondary =
     fold (\<lambda>key merged. merged(key \<mapsto> py_or (dict_get primary key) (dict_get secondary key)))
          (map fst LEASE_FACTS_SCHEMA_items) LEASE_FACTS_SCHEMA"

text \<open>The eleven canonical keys.\<close>

definition canonical_keys :: "string set" where
  "canonical_keys =
     {''tenant_name'', ''landlord_name'', ''property_address'', ''suite'',
      ''property_address_and_suite'', ''total_square_feet'', ''lease_commencement_date'',
      ''lease_expiration_date'', ''proportionate_share'', ''base_year'', ''security_deposit''}"

section \<open>Characters and strings\<close>

text \<open>
  A document is a \<open>string\<close>: a list of characters with code points 0 to 255. On that
  range the classes below are the ones Python's \<^verbatim>\<open>re\<close> and \<^verbatim>\<open>str\<close> use for
  \<^verbatim>\<open>str\<close> patterns: \<open>is_space\<close> is \<^verbatim>\<open>\s\<close> and \<^verbatim>\<open>str.isspace\<close>, \<open>is_digit\<close> is
  \<^verbatim>\<open>\d\<close>, \<open>is_word\<close> is \<^verbatim>\<open>\w\<close> (alphanumeric or underscore).
\<close>

definition is_space :: "char \<Rightarrow> bool" where
  "is_space c =
     (let n = (of_char c :: nat)
      in (9 \<le> n \<and> n \<le> 13) \<or> (28 \<le> n \<and> n \<le> 32) \<or> n = 133 \<or> n = 160)"

definition is_digit :: "char \<Rightarrow> bool" where
  "is_digit c = (let n = (of_char c :: nat) in 48 \<le> n \<and> n \<le> 57)"

definition is_word :: "char \<Rightarrow> bool" where
  "is_word c =
     (let n = (of_char c :: nat)
      in (48 \<le> n \<and> n \<le> 57) \<or> (65 \<le> n \<and> n \<le> 90) \<or> n = 95 \<or> (97 \<le> n \<and> n \<le> 122)
         \<or> n = 170 \<or> n = 178 \<or> n = 179 \<or> n = 181 \<or> n = 185 \<or> n = 186
         \<or> (188 \<le> n \<and> n \<le> 190) \<or> (192 \<le> n \<and> n \<le> 214) \<or> (216 \<le> n \<and> n \<le> 246)
         \<or> 248 \<le> n)"

text \<open>
  Case folding for \<^verbatim>\<open>re.IGNORECASE\<close>. Every literal of the patterns below is an ASCII
  character, and no character of the range other than an ASCII letter folds to one.
\<close>

definition lower :: "char \<Rightarrow> char" where
  "lower c = (let n = (of_char c :: nat) in if 65 \<le> n \<and> n \<le> 90 then char_of (n + 32) else c)"

text \<open>The dot of a pattern compiled without \<^verbatim>\<open>re.DOTALL\<close>: anything but a line feed.\<close>

definition any_char :: "char \<Rightarrow> bool" where
  "any_char c = (c \<noteq> CHR 0x0A)"

text \<open>\<^verbatim>\<open>s.strip()\<close> and \<^verbatim>\<open>s.strip(chars)\<close>.\<close>

definition strip :: "string \<Rightarrow> string" where
  "strip s = rev (dropWhile is_space (rev (dropWhile is_space s)))"

definition strip_chars :: "string \<Rightarrow> string \<Rightarrow> string" where
  "strip_chars cs s =
     rev (dropWhile (\<lambda>c. c \<in> set cs) (rev (dropWhile (\<lambda>c. c \<in> set cs) s)))"

text \<open>
  \<^verbatim>\<open>s.splitlines()\<close>: lines end at LF, CR, CR LF, VT, FF, FS, GS, RS and NEL; the line
  ends are dropped and a final line end opens no empty last line.
\<close>

definition is_linebreak :: "char \<Rightarrow> bool" where
  "is_linebreak c =
     (let n = (of_char c :: nat) in (10 \<le> n \<and> n \<le> 13) \<or> (28 \<le> n \<and> n \<le> 30) \<or> n = 133)"

fun splitlines_from :: "string \<Rightarrow> string \<Rightarrow> string list" where
  "splitlines_from cur [] = (if cur = [] then [] else [rev cur])"
| "splitlines_from cur (c # cs) =
     (if c = CHR 0x0D \<and> (case cs of [] \<Rightarrow> False | x # _ \<Rightarrow> x = CHR 0x0A)
      then rev cur # splitlines_from [] (tl cs)
      else if is_linebreak c then rev cur # splitlines_from [] cs
      else splitlines_from (c # cur) cs)"

definition splitlines :: "string \<Rightarrow> string list" where
  "splitlines s = splitlines_from [] s"

section \<open>Regular expressions\<close>

text \<open>
  The fragment of Python's pattern language the source uses. Every repetition in the
  source's patterns is over a single character or class, so \<open>Rep\<close> (greedy, between
  \<open>lo\<close> and \<open>hi\<close> times) and \<open>LazyPlus\<close> (\<^verbatim>\<open>+?\<close>) take a class; \<open>Opt\<close> is \<^verbatim>\<open>(...)?\<close>
  over any pattern. No pattern has more than one capturing group, so \<open>Grp\<close> is group 1.
  Literals are matched case-insensitively: every search of the source passes
  \<^verbatim>\<open>re.IGNORECASE\<close>.
\<close>

datatype regex =
    Eps
  | Lit char
  | Cls "char \<Rightarrow> bool"
  | Seq regex regex
  | Alt regex regex
  | Opt regex
  | Rep "char \<Rightarrow> bool" nat "nat option"
  | LazyPlus "char \<Rightarrow> bool"
  | Grp regex
  | WordB
  | Bol

text \<open>
  A matcher state: the character before the current position (\<open>None\<close> at the start of
  the string), the rest of the string from the current position, and what group 1
  has captured so far.
\<close>

type_synonym mstate = "char option \<times> string \<times> string option"

text \<open>\<^verbatim>\<open>\b\<close>: exactly one of the two neighbouring positions holds a word character.\<close>

definition at_boundary :: "char option \<Rightarrow> string \<Rightarrow> bool" where
  "at_boundary prev s =
     ((case prev of None \<Rightarrow> False | Some c \<Rightarrow> is_word c)
      \<noteq> (case s of [] \<Rightarrow> False | c # _ \<Rightarrow> is_word c))"

fun advance :: "nat \<Rightarrow> char option \<Rightarrow> string \<Rightarrow> char option \<times> string" where
  "advance 0 prev s = (prev, s)"
| "advance (Suc n) prev [] = (prev, [])"
| "advance (Suc n) prev (c # cs) = advance n (Some c) cs"

definition run_length :: "(char \<Rightarrow> bool) \<Rightarrow> nat option \<Rightarrow> string \<Rightarrow> nat" where
  "run_length p hi s =
     (let k = length (takeWhile p s) in case hi of None \<Rightarrow> k | Some h \<Rightarrow> min h k)"

text \<open>
  \<open>rmatch r st\<close> lists the states in which a match of \<open>r\<close> that starts in \<open>st\<close> can end,
  in the order a backtracking matcher tries them: the left alternative before the
  right one, more repetitions before fewer for a greedy repetition, fewer before more
  for a lazy one. The head of the list is the match Python reports.
\<close>

fun rmatch :: "regex \<Rightarrow> mstate \<Rightarrow> mstate list" where
  "rmatch Eps st = [st]"
| "rmatch (Lit c) (prev, s, g) =
     (case s of [] \<Rightarrow> [] | x # xs \<Rightarrow> if lower x = lower c then [(Some x, xs, g)] else [])"
| "rmatch (Cls p) (prev, s, g) =
     (case s of [] \<Rightarrow> [] | x # xs \<Rightarrow> if p x then [(Some x, xs, g)] else [])"
| "rmatch (Seq a b) st = concat (map (rmatch b) (rmatch a st))"
| "rmatch (Alt a b) st = rmatch a st @ rmatch b st"
| "rmatch (Opt a) st = rmatch a st @ [st]"
| "rmatch (Rep p lo hi) (prev, s, g) =
     map (\<lambda>n. case advance n prev s of (prev', s') \<Rightarrow> (prev', s', g))
         (rev [lo ..< Suc (run_length p hi s)])"
| "rmatch (LazyPlus p) (prev, s, g) =
     map (\<lambda>n. case advance n prev s of (prev', s') \<Rightarrow> (prev', s', g))
         [1 ..< Suc (run_length p None s)]"
| "rmatch (Grp a) (prev, s, g) =
     map (\<lambda>(prev', s', _). (prev', s', Some (take (length s - length s') s)))
         (rmatch a (prev, s, g))"
| "rmatch WordB (prev, s, g) = (if at_boundary prev s then [(prev, s, g)] else [])"
| "rmatch Bol (prev, s, g) = (if prev = None then [(prev, s, g)] else [])"

text \<open>Sequences, alternatives and literal words, to write the patterns as the source does.\<close>

fun seqs :: "regex list \<Rightarrow> regex" where
  "seqs [] = Eps"
| "seqs [r] = r"
| "seqs (r # rs) = Seq r (seqs rs)"

fun alts :: "regex \<Rightarrow> regex list \<Rightarrow> regex" where
  "alts r [] = r"
| "alts r (r' # rs) = Alt r (alts r' rs)"

definition str :: "string \<Rightarrow> regex" where
  "str s = seqs (map Lit s)"

text \<open>
  \<^verbatim>\<open>re.search\<close>: the first match at the leftmost position that has one. The result is
  the text skipped before the match and the state at the end of the match.
\<close>

fun re_search_from :: "regex \<Rightarrow> char option \<Rightarrow> string \<Rightarrow> (string \<times> mstate) option" where
  "re_search_from r prev [] =
     (case rmatch r (prev, [], None) of st # _ \<Rightarrow> Some ([], st) | [] \<Rightarrow> None)"
| "re_search_from r prev (c # cs) =
     (case rmatch r (prev, c # cs, None) of
        st # _ \<Rightarrow> Some ([], st)
      | [] \<Rightarrow> map_option (\<lambda>(skipped, st). (c # skipped, st)) (re_search_from r (Some c) cs))"

definition re_search :: "regex \<Rightarrow> string \<Rightarrow> (string \<times> mstate) option" where
  "re_search r text = re_search_from r None text"

text \<open>
  \<^verbatim>\<open>re.sub(pattern, "", s)\<close>: every match, found from left to right, is deleted. A match
  of length zero deletes nothing; the scan then moves one character on. (The two
  patterns the source substitutes match at least one character.)
\<close>

function re_sub_from :: "regex \<Rightarrow> char option \<Rightarrow> string \<Rightarrow> string" where
  "re_sub_from r prev s =
     (case re_search_from r prev s of
        None \<Rightarrow> s
      | Some (skipped, (prev', rest, _)) \<Rightarrow>
          if length skipped + length rest < length s
          then skipped @ re_sub_from r prev' rest
          else (case rest of
                  [] \<Rightarrow> skipped
                | c # cs \<Rightarrow> skipped @ c # re_sub_from r (Some c) cs))"
  by pat_completeness auto

lemma advance_length: "advance n prev s = (prev', s') \<Longrightarrow> length s' \<le> length s"
  by (induction n prev s rule: advance.induct) auto

lemma rmatch_length:
  "(prev', s', g') \<in> set (rmatch r (prev, s, g)) \<Longrightarrow> length s' \<le> length s"
proof (induction r arbitrary: prev s g prev' s' g')
  case (Seq a b)
  then obtain p1 s1 g1 where 1: "(p1, s1, g1) \<in> set (rmatch a (prev, s, g))"
    and 2: "(prev', s', g') \<in> set (rmatch b (p1, s1, g1))"
    by auto
  from Seq.IH(1) [OF 1] Seq.IH(2) [OF 2] show ?case by simp
next
  case (Rep p lo hi)
  then show ?case by (auto split: prod.splits dest: advance_length)
next
  case (LazyPlus p)
  then show ?case by (auto split: prod.splits dest: advance_length)
qed (auto split: list.splits if_splits)

lemma re_search_from_length:
  "re_search_from r prev s = Some (skipped, (prev', rest, g)) \<Longrightarrow>
   length skipped + length rest \<le> length s"
proof (induction s arbitrary: prev skipped)
  case Nil
  then have "(prev', rest, g) \<in> set (rmatch r (prev, [], None))" and "skipped = []"
    by (auto split: list.splits)
  then show ?case by (auto dest: rmatch_length)
next
  case (Cons c cs)
  show ?case
  proof (cases "rmatch r (prev, c # cs, None)")
    case Nil
    with Cons.prems obtain sk where "re_search_from r (Some c) cs = Some (sk, (prev', rest, g))"
      and "skipped = c # sk"
      by auto
    with Cons.IH show ?thesis by fastforce
  next
    case (Cons st sts)
    with Cons.prems have "(prev', rest, g) \<in> set (rmatch r (prev, c # cs, None))" and "skipped = []"
      by auto
    then show ?thesis by (auto dest: rmatch_length)
  qed
qed

termination re_sub_from
proof (relation "measure (\<lambda>(r, prev, s). length s)")
  show "wf (measure (\<lambda>(r, prev, s). length s))" by simp
next
  fix r prev s x2 skipped y prev' z rest g
  assume "re_search_from r prev s = Some x2" "(skipped, y) = x2" "(prev', z) = y" "(rest, g) = z"
    "length skipped + length rest < length s"
  then show "((r, prev', rest), r, prev, s) \<in> measure (\<lambda>(r, prev, s). length s)" by simp
next
  fix r prev s x2 skipped y prev' z rest g c cs
  assume "re_search_from r prev s = Some x2" "(skipped, y) = x2" "(prev', z) = y" "(rest, g) = z"
    "rest = c # cs"
  then have "re_search_from r prev s = Some (skipped, (prev', c # cs, g))" by simp
  from re_search_from_length [OF this]
  show "((r, Some c, cs), r, prev, s) \<in> measure (\<lambda>(r, prev, s). length s)" by simp
qed

definition re_sub :: "regex \<Rightarrow> string \<Rightarrow> string" where
  "re_sub r s = re_sub_from r None s"

section \<open>Errors, matches and dates\<close>

text \<open>
  What the modelled code can raise: \<^verbatim>\<open>AttributeError\<close> when \<^verbatim>\<open>.strip()\<close> is called on a
  group that took no part in the match (\<^verbatim>\<open>m.group(1)\<close> is then \<^verbatim>\<open>None\<close>), and the
  exceptions of the date parser.
\<close>

datatype error = AttributeError | ParserError | OverflowError

definition bindE :: "error + 'a \<Rightarrow> ('a \<Rightarrow> error + 'b) \<Rightarrow> error + 'b" where
  "bindE m f = (case m of Inl e \<Rightarrow> Inl e | Inr x \<Rightarrow> f x)"

text \<open>\<^verbatim>\<open>m.group(1).strip()\<close> for a match object \<^verbatim>\<open>m\<close>.\<close>

definition group1_strip :: "mstate \<Rightarrow> error + string" where
  "group1_strip st =
     (case snd (snd st) of None \<Rightarrow> Inl AttributeError | Some g \<Rightarrow> Inr (strip g))"

text \<open>\<^verbatim>\<open>_first_match\<close>, always called with the default flags \<^verbatim>\<open>re.IGNORECASE\<close>.\<close>

definition first_match :: "regex \<Rightarrow> string \<Rightarrow> error + pyval" where
  "first_match pattern text =
     (case re_search pattern text of
        None \<Rightarrow> Inr None
      | Some (_, m) \<Rightarrow> bindE (group1_strip m) (\<lambda>g. Inr (Some g)))"

text \<open>
  The date part of a \<^verbatim>\<open>datetime\<close>, and \<^verbatim>\<open>dt.strftime("%d-%m-%Y")\<close>. CPython hands the
  format to the C library: day and month are padded with zeros to two digits, and the
  year is printed as the C library of Linux prints it, without padding, so that the
  year 99 is printed as \<^verbatim>\<open>99\<close>.
\<close>

record datetime =
  year :: nat
  month :: nat
  day :: nat

definition valid_datetime :: "datetime \<Rightarrow> bool" where
  "valid_datetime dt =
     (1 \<le> year dt \<and> year dt \<le> 9999 \<and> 1 \<le> month dt \<and> month dt \<le> 12 \<and> 1 \<le> day dt \<and> day dt \<le> 31)"

fun decimal :: "nat \<Rightarrow> string" where
  "decimal n = (if n < 10 then [char_of (48 + n)] else decimal (n div 10) @ [char_of (48 + n mod 10)])"

definition zero_pad :: "nat \<Rightarrow> nat \<Rightarrow> string" where
  "zero_pad w n = replicate (w - length (decimal n)) CHR ''0'' @ decimal n"

definition strftime_d_m_Y :: "datetime \<Rightarrow> string" where
  "strftime_d_m_Y dt = zero_pad 2 (day dt) @ ''-'' @ zero_pad 2 (month dt) @ ''-'' @ decimal (year dt)"

text \<open>
  \<^verbatim>\<open>_normalize_date\<close>. The parser \<^verbatim>\<open>dateutil.parser.parse(value, dayfirst=False, fuzzy=True)\<close>
  is a library outside the repository: it is the parameter \<open>parse\<close>, which returns a
  \<^verbatim>\<open>datetime\<close> or raises. Whatever is raised inside the \<^verbatim>\<open>try\<close> is caught.
\<close>

definition normalize_date :: "(string \<Rightarrow> error + datetime) \<Rightarrow> string \<Rightarrow> pyval" where
  "normalize_date parse v =
     (case parse v of Inl _ \<Rightarrow> None | Inr dt \<Rightarrow> Some (strftime_d_m_Y dt))"

text \<open>The shape \<^verbatim>\<open>DD-MM-YYYY\<close>: ten characters, digits around two hyphens.\<close>

definition is_dd_mm_yyyy :: "string \<Rightarrow> bool" where
  "is_dd_mm_yyyy s =
     (case s of
        [d1, d2, h1, m1, m2, h2, y1, y2, y3, y4] \<Rightarrow>
          is_digit d1 \<and> is_digit d2 \<and> h1 = CHR ''-'' \<and> is_digit m1 \<and> is_digit m2 \<and> h2 = CHR ''-''
          \<and> is_digit y1 \<and> is_digit y2 \<and> is_digit y3 \<and> is_digit y4
      | _ \<Rightarrow> False)"

section \<open>The patterns of the source\<close>

text \<open>\<^verbatim>\<open>\bTenant\s*:\s*(.+)\<close> and \<^verbatim>\<open>\bLandlord\s*:\s*(.+)\<close>\<close>

definition P_tenant :: regex where
  "P_tenant =
     seqs [WordB, str ''Tenant'', Rep is_space 0 None, Lit CHR '':'', Rep is_space 0 None,
           Grp (Rep any_char 1 None)]"

definition P_landlord :: regex where
  "P_landlord =
     seqs [WordB, str ''Landlord'', Rep is_space 0 None, Lit CHR '':'', Rep is_space 0 None,
           Grp (Rep any_char 1 None)]"

text \<open>\<^verbatim>\<open>\b(?:Premises(?:\s*Address)?|Property(?:\s*Address)?|Address)\s*(?:\:|\-)\s*(.+)\<close>\<close>

definition P_address_label :: regex where
  "P_address_label =
     seqs [WordB,
           alts (Seq (str ''Premises'') (Opt (Seq (Rep is_space 0 None) (str ''Address''))))
                [Seq (str ''Property'') (Opt (Seq (Rep is_space 0 None) (str ''Address''))),
                 str ''Address''],
           Rep is_space 0 None,
           Alt (Lit CHR '':'') (Lit CHR ''-''),
           Rep is_space 0 None,
           Grp (Rep any_char 1 None)]"

text \<open>\<^verbatim>\<open>(?:Suite|Ste\.?|#)\<close>, the suite marker shared by the next two patterns.\<close>

definition suite_marker :: regex where
  "suite_marker = alts (str ''Suite'') [Seq (str ''Ste'') (Opt (Lit CHR ''.'')), Lit CHR ''#'']"

definition suite_token_char :: "char \<Rightarrow> bool" where
  "suite_token_char c = (is_word c \<or> c = CHR ''-'')"

text \<open>\<^verbatim>\<open>(?:Suite|Ste\.?|#)\s*([\w\-]+)\<close>\<close>

definition P_suite :: regex where
  "P_suite = seqs [suite_marker, Rep is_space 0 None, Grp (Rep suite_token_char 1 None)]"

text \<open>\<^verbatim>\<open>(?:,?\s*)(?:Suite|Ste\.?|#)\s*[\w\-]+\<close>\<close>

definition P_suite_removal :: regex where
  "P_suite_removal =
     seqs [Seq (Opt (Lit CHR '','')) (Rep is_space 0 None),
           suite_marker, Rep is_space 0 None, Rep suite_token_char 1 None]"

text \<open>
  \<^verbatim>\<open>^\s*\d{1,6}\s+.+?(?:Street|St\.|Avenue|Ave\.|Road|Rd\.|Boulevard|Blvd\.|Lane|Ln\.|Drive|Dr\.|Court|Ct\.|Way|Terrace|Ter\.)\b.*\<close>
\<close>

definition street_pat :: regex where
  "street_pat =
     seqs [Bol, Rep is_space 0 None, Rep is_digit 1 (Some 6), Rep is_space 1 None,
           LazyPlus any_char,
           alts (str ''Street'')
                [str ''St.'', str ''Avenue'', str ''Ave.'', str ''Road'', str ''Rd.'',
                 str ''Boulevard'', str ''Blvd.'', str ''Lane'', str ''Ln.'', str ''Drive'',
                 str ''Dr.'', str ''Court'', str ''Ct.'', str ''Way'', str ''Terrace'', str ''Ter.''],
           WordB, Rep any_char 0 None]"

text \<open>
  \<^verbatim>\<open>\b(?:Rentable|Leasable|Approx\.?|Total)?\s*(?:Square\s*Feet|Sq\.?\s*Ft\.?|SF)[^\d]*(\d[\d,\.]+)\<close>
\<close>

definition P_square_feet :: regex where
  "P_square_feet =
     seqs [WordB,
           Opt (alts (str ''Rentable'')
                     [str ''Leasable'', Seq (str ''Approx'') (Opt (Lit CHR ''.'')), str ''Total'']),
           Rep is_space 0 None,
           alts (seqs [str ''Square'', Rep is_space 0 None, str ''Feet''])
                [seqs [str ''Sq'', Opt (Lit CHR ''.''), Rep is_space 0 None, str ''Ft'',
                       Opt (Lit CHR ''.'')],
                 str ''SF''],
           Rep (\<lambda>c. \<not> is_digit c) 0 None,
           Grp (Seq (Cls is_digit)
                    (Rep (\<lambda>c. is_digit c \<or> c = CHR '','' \<or> c = CHR ''.'') 1 None))]"

text \<open>\<^verbatim>\<open>[^\d\.]\<close>, deleted from the captured square footage.\<close>

definition P_not_numeric :: regex where
  "P_not_numeric = Cls (\<lambda>c. \<not> (is_digit c \<or> c = CHR ''.''))"

definition not_line_end :: "char \<Rightarrow> bool" where
  "not_line_end c = (c \<noteq> CHR 0x0A \<and> c \<noteq> CHR 0x0D)"

text \<open>\<^verbatim>\<open>\b(?:Lease\s*)?Commencement\s*Date\s*:?\s*([^\n\r]+)\<close>\<close>

definition P_commencement :: regex where
  "P_commencement =
     seqs [WordB, Opt (Seq (str ''Lease'') (Rep is_space 0 None)),
           str ''Commencement'', Rep is_space 0 None, str ''Date'', Rep is_space 0 None,
           Opt (Lit CHR '':''), Rep is_space 0 None,
           Grp (Rep not_line_end 1 None)]"

text \<open>\<^verbatim>\<open>\b(?:Lease\s*)?(?:Expiration|Expiry)\s*Date\s*:?\s*([^\n\r]+)\<close>\<close>

definition P_expiration :: regex where
  "P_expiration =
     seqs [WordB, Opt (Seq (str ''Lease'') (Rep is_space 0 None)),
           Alt (str ''Expiration'') (str ''Expiry''), Rep is_space 0 None, str ''Date'',
           Rep is_space 0 None, Opt (Lit CHR '':''), Rep is_space 0 None,
           Grp (Rep not_line_end 1 None)]"

text \<open>\<^verbatim>\<open>\bProportionate\s+Share\s*:?\s*(\d{1,2}(?:\.\d+)?\s*%)\<close>\<close>

definition P_proportionate_share :: regex where
  "P_proportionate_share =
     seqs [WordB, str ''Proportionate'', Rep is_space 1 None, str ''Share'', Rep is_space 0 None,
           Opt (Lit CHR '':''), Rep is_space 0 None,
           Grp (seqs [Rep is_digit 1 (Some 2),
                      Opt (Seq (Lit CHR ''.'') (Rep is_digit 1 None)),
                      Rep is_space 0 None, Lit CHR ''%''])]"

text \<open>\<^verbatim>\<open>\bBase\s+Year\s*:?\s*(\d{4})\b\<close>\<close>

definition P_base_year :: regex where
  "P_base_year =
     seqs [WordB, str ''Base'', Rep is_space 1 None, str ''Year'', Rep is_space 0 None,
           Opt (Lit CHR '':''), Rep is_space 0 None,
           Grp (Rep is_digit 4 (Some 4)), WordB]"

text \<open>\<^verbatim>\<open>\bSecurity\s+Deposit\<close>, the label both security-deposit patterns start with.\<close>

definition security_deposit_label :: regex where
  "security_deposit_label = seqs [WordB, str ''Security'', Rep is_space 1 None, str ''Deposit'']"

text \<open>\<^verbatim>\<open>\bSecurity\s+Deposit\s*:?\s*(?:\$\s*)?([\d,]+(?:\.\d{2})?)\b\<close>\<close>

definition P_security_deposit :: regex where
  "P_security_deposit =
     Seq security_deposit_label
       (seqs [Rep is_space 0 None, Opt (Lit CHR '':''), Rep is_space 0 None,
              Opt (Seq (Lit CHR ''$'') (Rep is_space 0 None)),
              Grp (Seq (Rep (\<lambda>c. is_digit c \<or> c = CHR '','') 1 None)
                       (Opt (Seq (Lit CHR ''.'') (Rep is_digit 2 (Some 2))))),
              WordB])"

text \<open>\<^verbatim>\<open>\bSecurity\s+Deposit\b[^\n\r]*(?:None|N/A|No\s+Deposit)\<close>\<close>

definition P_deposit_none :: regex where
  "P_deposit_none =
     Seq security_deposit_label
       (seqs [WordB, Rep not_line_end 0 None,
              alts (str ''None'')
                   [str ''N/A'', seqs [str ''No'', Rep is_space 1 None, str ''Deposit'']]])"

section \<open>The deterministic extraction pipeline\<close>

text \<open>
  \<^verbatim>\<open>_extract_address_and_suite\<close>, in its three steps. The inner loop over
  \<^verbatim>\<open>cand_lines\<close> keeps the suite found so far when no candidate line has a marker.
\<close>

fun suite_scan :: "string list \<Rightarrow> pyval \<Rightarrow> error + pyval" where
  "suite_scan [] suite = Inr suite"
| "suite_scan (cl # cls) suite =
     (case re_search P_suite cl of
        Some (_, s) \<Rightarrow> bindE (group1_strip s) (\<lambda>g. Inr (Some g))
      | None \<Rightarrow> suite_scan cls suite)"

fun street_scan :: "string list \<Rightarrow> pyval \<times> pyval \<Rightarrow> error + pyval \<times> pyval" where
  "street_scan [] (address, suite) = Inr (address, suite)"
| "street_scan (l # rest) (address, suite) =
     (if re_search street_pat l \<noteq> None
      then bindE (suite_scan (l # take 1 rest) suite)
             (\<lambda>suite'. Inr (Some (strip_chars '' ,;-'' l), suite'))
      else street_scan rest (address, suite))"

definition label_capture :: "string \<Rightarrow> error + pyval \<times> pyval" where
  "label_capture text =
     (case re_search P_address_label text of
        None \<Rightarrow> Inr (None, None)
      | Some (_, m) \<Rightarrow>
          bindE (group1_strip m) (\<lambda>line.
            case re_search P_suite line of
              Some (_, s) \<Rightarrow>
                bindE (group1_strip s) (\<lambda>suite.
                  Inr (Some (strip_chars '' ,;-'' (re_sub P_suite_removal line)), Some suite))
            | None \<Rightarrow> Inr (Some line, None)))"

definition global_suite :: "string \<Rightarrow> pyval \<times> pyval \<Rightarrow> error + pyval \<times> pyval" where
  "global_suite text as =
     (case as of (address, suite) \<Rightarrow>
        if \<not> truthy suite
        then (case re_search P_suite text of
                Some (_, s) \<Rightarrow> bindE (group1_strip s) (\<lambda>g. Inr (address, Some g))
              | None \<Rightarrow> Inr (address, suite))
        else Inr (address, suite))"

definition extract_address_and_suite :: "string \<Rightarrow> error + pyval \<times> pyval" where
  "extract_address_and_suite text =
     (let lines = map strip (splitlines text)
      in bindE (label_capture text) (\<lambda>(address, suite).
         bindE (if \<not> truthy address then street_scan lines (address, suite)
                else Inr (address, suite)) (\<lambda>as.
         global_suite text as)))"

text \<open>An \<^verbatim>\<open>Optional[str]\<close> inside an f-string.\<close>

definition py_str :: "pyval \<Rightarrow> string" where
  "py_str v = (case v of None \<Rightarrow> ''None'' | Some s \<Rightarrow> s)"

text \<open>The \<^verbatim>\<open>if\<close>/\<^verbatim>\<open>elif\<close> chain that computes \<^verbatim>\<open>combined_addr\<close>.\<close>

definition combined_addr :: "pyval \<Rightarrow> pyval \<Rightarrow> pyval" where
  "combined_addr address suite =
     (if truthy address \<and> truthy suite then Some (py_str address @ '' Suite '' @ py_str suite)
      else if truthy address then address
      else if truthy suite then Some (''Suite '' @ py_str suite)
      else None)"

text \<open>\<^verbatim>\<open>f(x) if x else None\<close>.\<close>

definition if_truthy :: "pyval \<Rightarrow> (string \<Rightarrow> pyval) \<Rightarrow> pyval" where
  "if_truthy v f = (case v of None \<Rightarrow> None | Some s \<Rightarrow> if s = [] then None else f s)"

text \<open>\<^verbatim>\<open>_extract_lease_facts_from_text\<close>.\<close>

definition extract_lease_facts_from_text :: "(string \<Rightarrow> error + datetime) \<Rightarrow> string \<Rightarrow> error + facts" where
  "extract_lease_facts_from_text parse text =
     bindE (first_match P_tenant text) (\<lambda>tenant.
     bindE (first_match P_landlord text) (\<lambda>landlord.
     bindE (extract_address_and_suite text) (\<lambda>(address, suite).
     bindE (first_match P_square_feet text) (\<lambda>square_feet_raw.
     let square_feet = if_truthy square_feet_raw (\<lambda>raw. Some (re_sub P_not_numeric raw)) in
     bindE (first_match P_commencement text) (\<lambda>commence_raw.
     bindE (first_match P_expiration text) (\<lambda>expire_raw.
     let lease_commencement = if_truthy commence_raw (normalize_date parse);
         lease_expiration = if_truthy expire_raw (normalize_date parse) in
     bindE (first_match P_proportionate_share text) (\<lambda>proportionate_share.
     bindE (first_match P_base_year text) (\<lambda>base_year.
     bindE (first_match P_security_deposit text) (\<lambda>deposit_match.
     let security_deposit =
           (if \<not> truthy deposit_match
            then (if re_search P_deposit_none text \<noteq> None then Some ''None'' else None)
            else deposit_match)
     in Inr (map_of
          [(''tenant_name'', tenant),
           (''landlord_name'', landlord),
           (''property_address'', address),
           (''suite'', suite),
           (''property_address_and_suite'', combined_addr address suite),
           (''total_square_feet'', square_feet),
           (''lease_commencement_date'', lease_commencement),
           (''lease_expiration_date'', lease_expiration),
           (''proportionate_share'', proportionate_share),
           (''base_year'', base_year),
           (''security_deposit'', if truthy security_deposit then security_deposit else None)])
     )))))))))"

text \<open>
  A pattern in which group 1 takes part in every match: the group lies on every path
  through the pattern.
\<close>

fun captures :: "regex \<Rightarrow> bool" where
  "captures (Grp a) = True"
| "captures (Seq a b) = (captures a \<or> captures b)"
| "captures (Alt a b) = (captures a \<and> captures b)"
| "captures _ = False"

text \<open>
  The derived field as the specification documents it, for comparison with
  \<open>combined_addr\<close>: both parts joined by \<^verbatim>\<open> Suite \<close> when both are present, the one
  present part when only one is, missing when both are missing. A part is present
  when it is not the missing sentinel.
\<close>

definition documented_combined :: "pyval \<Rightarrow> pyval \<Rightarrow> pyval" where
  "documented_combined address suite =
     (case address of
        Some a \<Rightarrow> (case suite of Some s \<Rightarrow> Some (a @ '' Suite '' @ s) | None \<Rightarrow> Some a)
      | None \<Rightarrow> suite)"

text \<open>
  A document made of scenario lines of the specification, one per line, to run the
  pipeline on more than a single line.
\<close>

definition scenario_document :: string where
  "scenario_document =
     ''Tenant: Acme Corp'' @ [CHR 0x0A]
     @ ''Landlord: Big Realty LLC'' @ [CHR 0x0A]
     @ ''Address: 123 Main Street, Suite 4B'' @ [CHR 0x0A]
     @ ''Total Square Feet: 12,345'' @ [CHR 0x0A]
     @ ''Commencement Date: March 1, 2023'' @ [CHR 0x0A]
     @ ''Security Deposit: None''"

section \<open>Properties of the schema, the formatter and the merger\<close>

lemma schema_keys_canonical: "set (map fst LEASE_FACTS_SCHEMA_items) = canonical_keys"
  by (simp add: LEASE_FACTS_SCHEMA_items_def canonical_keys_def)

lemma schema_keys_distinct: "distinct (map fst LEASE_FACTS_SCHEMA_items)"
  by (simp add: LEASE_FACTS_SCHEMA_items_def)

lemma card_canonical_keys: "card canonical_keys = 11"
proof -
  have "card (set (map fst LEASE_FACTS_SCHEMA_items)) = length (map fst LEASE_FACTS_SCHEMA_items)"
    using schema_keys_distinct by (rule distinct_card)
  then have "card canonical_keys = length (map fst LEASE_FACTS_SCHEMA_items)"
    by (simp only: schema_keys_canonical)
  also have "\<dots> = 11"
    by (simp add: LEASE_FACTS_SCHEMA_items_def)
  finally show ?thesis .
qed

lemma dom_schema: "dom LEASE_FACTS_SCHEMA = canonical_keys"
  by (simp add: LEASE_FACTS_SCHEMA_def dom_map_of_conv_image_fst schema_keys_canonical [symmetric])

lemma schema_lookup:
  "LEASE_FACTS_SCHEMA k = (if k \<in> canonical_keys then Some None else None)"
proof (cases "k \<in> canonical_keys")
  case True
  then have "k \<in> dom LEASE_FACTS_SCHEMA" by (simp add: dom_schema)
  then obtain v where v: "LEASE_FACTS_SCHEMA k = Some v" by blast
  then have "(k, v) \<in> set LEASE_FACTS_SCHEMA_items"
    by (simp add: LEASE_FACTS_SCHEMA_def map_of_SomeD)
  then have "v = None" by (auto simp: LEASE_FACTS_SCHEMA_items_def)
  with v True show ?thesis by simp
next
  case False
  then have "k \<notin> dom LEASE_FACTS_SCHEMA" by (simp add: dom_schema)
  with False show ?thesis by (simp add: domIff)
qed

lemma format_lookup:
  "format_facts_output facts k =
     (if k \<in> canonical_keys
      then (case facts k of None \<Rightarrow> Some PyNone | Some v \<Rightarrow> Some (format_value v))
      else None)"
  by (simp add: format_facts_output_def Let_def map_add_def schema_lookup of_pyval_def
      split: option.splits)

lemma fold_assign_lookup:
  "fold (\<lambda>key merged. merged(key \<mapsto> f key)) ks m k = (if k \<in> set ks then Some (f k) else m k)"
  by (induction ks arbitrary: m) auto

lemma merge_lookup:
  "merge_facts primary secondary k =
     (if k \<in> canonical_keys then Some (py_or (dict_get primary k) (dict_get secondary k))
      else None)"
  unfolding merge_facts_def fold_assign_lookup schema_keys_canonical
  by (simp add: schema_lookup)

lemma format_value_idem: "format_value (format_value v) = format_value v"
  by (simp add: format_value_def)

text \<open>
  Claim C2, as amended. For each of the eleven keys the merged value is the primary
  record's value when that value is a non-empty string, whatever the secondary record
  holds; otherwise (the primary value is missing, the key is absent from the primary
  record, or the primary value is the empty string) it is the secondary record's value
  at that key, and missing when the secondary record has no such key.
\<close>

theorem merge_facts_priority:
  assumes "k \<in> canonical_keys"
  shows "(truthy (dict_get primary k) \<longrightarrow>
            merge_facts primary secondary k = Some (dict_get primary k))
       \<and> (\<not> truthy (dict_get primary k) \<longrightarrow>
            merge_facts primary secondary k = Some (dict_get secondary k))
       \<and> (\<not> truthy (dict_get primary k) \<and> secondary k = None \<longrightarrow>
            merge_facts primary secondary k = Some None)"
  using assms by (simp add: merge_lookup py_or_def dict_get_def)

theorem merge_facts_priority_witness:
  "''base_year'' \<in> canonical_keys
   \<and> truthy (dict_get [''base_year'' \<mapsto> Some ''2020''] ''base_year'')
   \<and> merge_facts [''base_year'' \<mapsto> Some ''2020''] [''base_year'' \<mapsto> Some ''1999''] ''base_year''
       = Some (Some ''2020'')
   \<and> \<not> truthy (dict_get [''suite'' \<mapsto> None] ''base_year'')
   \<and> merge_facts [''suite'' \<mapsto> None] [''base_year'' \<mapsto> Some ''1999''] ''base_year''
       = Some (Some ''1999'')
   \<and> merge_facts [''suite'' \<mapsto> None] Map.empty ''base_year'' = Some None"
proof -
  have k: "''base_year'' \<in> canonical_keys"
    by (simp add: canonical_keys_def)
  have t: "truthy (dict_get [''base_year'' \<mapsto> Some ''2020''] ''base_year'')"
    by (simp add: truthy_def dict_get_def)
  have f: "\<not> truthy (dict_get [''suite'' \<mapsto> None] ''base_year'')"
    by (simp add: truthy_def dict_get_def)
  from merge_facts_priority [OF k, of "[''base_year'' \<mapsto> Some ''2020'']" "[''base_year'' \<mapsto> Some ''1999'']"] t
  have 1: "merge_facts [''base_year'' \<mapsto> Some ''2020''] [''base_year'' \<mapsto> Some ''1999''] ''base_year''
       = Some (Some ''2020'')"
    by (simp add: dict_get_def)
  from merge_facts_priority [OF k, of "[''suite'' \<mapsto> None]" "[''base_year'' \<mapsto> Some ''1999'']"] f
  have 2: "merge_facts [''suite'' \<mapsto> None] [''base_year'' \<mapsto> Some ''1999''] ''base_year''
       = Some (Some ''1999'')"
    by (simp add: dict_get_def)
  from merge_facts_priority [OF k, of "[''suite'' \<mapsto> None]" Map.empty] f
  have 3: "merge_facts [''suite'' \<mapsto> None] Map.empty ''base_year'' = Some None"
    by blast
  from k t f 1 2 3 show ?thesis by blast
qed

text \<open>
  Claim C2, as stated, fails where the primary record holds the empty string: that
  value is present (it is not the missing sentinel), yet the merged record takes the
  secondary record's value.
\<close>

theorem merge_facts_empty_primary_counterexample:
  "[''tenant_name'' \<mapsto> Some []] ''tenant_name'' = Some (Some [])
   \<and> merge_facts [''tenant_name'' \<mapsto> Some []] [''tenant_name'' \<mapsto> Some ''Acme Corp'']
        ''tenant_name'' = Some (Some ''Acme Corp'')
   \<and> merge_facts [''tenant_name'' \<mapsto> Some []] [''tenant_name'' \<mapsto> Some ''Acme Corp'']
        ''tenant_name'' \<noteq> [''tenant_name'' \<mapsto> Some []] ''tenant_name''"
  by (simp add: merge_lookup canonical_keys_def py_or_def dict_get_def truthy_def)




text \<open>
  Claim C5. Formatting is idempotent: formatting a formatted record gives the same
  record.
\<close>

theorem format_facts_output_idempotent:
  "format_facts_output (format_facts_output x) = format_facts_output x"
proof
  fix k
  show "format_facts_output (format_facts_output x) k = format_facts_output x k"
    by (simp add: format_lookup format_value_idem format_value_def split: option.splits)
qed

text \<open>
  Claim C10. For every pair of input dictionaries, empty ones and ones with keys outside
  the schema included, the keys of the merged record are exactly the eleven canonical
  keys.
\<close>

theorem merge_facts_keys:
  "dom (merge_facts primary secondary) = canonical_keys
   \<and> card (dom (merge_facts primary secondary)) = 11"
proof -
  have d: "dom (merge_facts primary secondary) = canonical_keys"
    by (auto simp: merge_lookup domIff split: if_splits)
  then show ?thesis by (simp only: card_canonical_keys)
qed

theorem merge_facts_keys_witness:
  "dom (merge_facts Map.empty [''notes'' \<mapsto> Some ''x'']) = canonical_keys
   \<and> ''notes'' \<notin> dom (merge_facts Map.empty [''notes'' \<mapsto> Some ''x''])"
proof -
  have "''notes'' \<notin> canonical_keys" by (simp add: canonical_keys_def)
  with merge_facts_keys [of Map.empty "[''notes'' \<mapsto> Some ''x'']"] show ?thesis by simp
qed

section \<open>Group 1 always takes part: no search of the pipeline raises\<close>

lemma rmatch_capture_kept:
  "(prev', s', g') \<in> set (rmatch r (prev, s, g)) \<Longrightarrow> g \<noteq> None \<Longrightarrow> g' \<noteq> None"
proof (induction r arbitrary: prev s g prev' s' g')
  case (Seq a b)
  then obtain p1 s1 g1 where 1: "(p1, s1, g1) \<in> set (rmatch a (prev, s, g))"
    and 2: "(prev', s', g') \<in> set (rmatch b (p1, s1, g1))"
    by auto
  from Seq.IH(1) [OF 1 Seq.prems(2)] have "g1 \<noteq> None" .
  from Seq.IH(2) [OF 2 this] show ?case .
qed (auto split: list.splits if_splits prod.splits)

lemma rmatch_captures:
  "captures r \<Longrightarrow> (prev', s', g') \<in> set (rmatch r (prev, s, g)) \<Longrightarrow> g' \<noteq> None"
proof (induction r arbitrary: prev s g prev' s' g')
  case (Seq a b)
  from Seq.prems(2) obtain p1 s1 g1 where 1: "(p1, s1, g1) \<in> set (rmatch a (prev, s, g))"
    and 2: "(prev', s', g') \<in> set (rmatch b (p1, s1, g1))"
    by auto
  show ?case
  proof (cases "captures a")
    case True
    from Seq.IH(1) [OF True 1] have "g1 \<noteq> None" .
    with 2 show ?thesis by (rule rmatch_capture_kept)
  next
    case False
    with Seq.prems(1) have "captures b" by simp
    from Seq.IH(2) [OF this 2] show ?thesis .
  qed
qed (auto split: list.splits if_splits prod.splits)

lemma re_search_from_captures:
  "captures r \<Longrightarrow> re_search_from r prev s = Some (skipped, st) \<Longrightarrow> snd (snd st) \<noteq> None"
proof (induction s arbitrary: prev skipped)
  case Nil
  then have "st \<in> set (rmatch r (prev, [], None))"
    by (auto split: list.splits)
  with Nil.prems(1) show ?case by (cases st) (auto dest: rmatch_captures)
next
  case (Cons c cs)
  show ?case
  proof (cases "rmatch r (prev, c # cs, None)")
    case Nil
    with Cons.prems(2) obtain sk where "re_search_from r (Some c) cs = Some (sk, st)"
      by auto
    with Cons.IH [OF Cons.prems(1)] show ?thesis by blast
  next
    case (Cons x xs)
    with Cons.prems(2) have "st \<in> set (rmatch r (prev, c # cs, None))"
      by auto
    with Cons.prems(1) show ?thesis by (cases st) (auto dest: rmatch_captures)
  qed
qed

lemma group1_strip_total:
  "captures r \<Longrightarrow> re_search r text = Some (skipped, m) \<Longrightarrow> \<exists>g. group1_strip m = Inr g"
  unfolding re_search_def
  by (drule (1) re_search_from_captures) (auto simp: group1_strip_def)

lemma first_match_total:
  assumes "captures r"
  shows "\<exists>v. first_match r text = Inr v \<and> (re_search r text = None \<longrightarrow> v = None)"
proof (cases "re_search r text")
  case None
  then show ?thesis by (simp add: first_match_def)
next
  case (Some a)
  obtain skipped m where a: "a = (skipped, m)" by (cases a)
  with Some group1_strip_total [OF assms] obtain g where "group1_strip m = Inr g" by blast
  with Some a show ?thesis by (simp add: first_match_def bindE_def)
qed

lemma captures_patterns:
  "captures P_tenant" "captures P_landlord" "captures P_address_label" "captures P_suite"
  "captures P_square_feet" "captures P_commencement" "captures P_expiration"
  "captures P_proportionate_share" "captures P_base_year" "captures P_security_deposit"
  by (simp_all add: P_tenant_def P_landlord_def P_address_label_def P_suite_def
      P_square_feet_def P_commencement_def P_expiration_def P_proportionate_share_def
      P_base_year_def P_security_deposit_def)

lemma suite_scan_total: "\<exists>v. suite_scan cls suite = Inr v"
proof (induction cls)
  case Nil
  show ?case by simp
next
  case (Cons cl cls)
  show ?case
  proof (cases "re_search P_suite cl")
    case None
    with Cons show ?thesis by simp
  next
    case (Some a)
    obtain skipped m where a: "a = (skipped, m)" by (cases a)
    with Some group1_strip_total [OF captures_patterns(4)] obtain g where "group1_strip m = Inr g"
      by blast
    with Some a show ?thesis by (simp add: bindE_def)
  qed
qed

lemma street_scan_total: "\<exists>a s. street_scan ls (address, suite) = Inr (a, s)"
proof (induction ls)
  case Nil
  show ?case by simp
next
  case (Cons l ls)
  show ?case
  proof (cases "re_search street_pat l = None")
    case True
    with Cons show ?thesis by simp
  next
    case False
    obtain v where "suite_scan (l # take 1 ls) suite = Inr v"
      using suite_scan_total by blast
    with False show ?thesis by (simp add: bindE_def del: suite_scan.simps)
  qed
qed

lemma label_capture_total: "\<exists>a s. label_capture text = Inr (a, s)"
proof (cases "re_search P_address_label text")
  case None
  then show ?thesis by (simp add: label_capture_def)
next
  case (Some x)
  obtain skipped m where x: "x = (skipped, m)" by (cases x)
  with Some group1_strip_total [OF captures_patterns(3)] obtain line where l: "group1_strip m = Inr line"
    by blast
  show ?thesis
  proof (cases "re_search P_suite line")
    case None
    with Some x l show ?thesis by (simp add: label_capture_def bindE_def)
  next
    case (Some y)
    obtain skipped' s where y: "y = (skipped', s)" by (cases y)
    with Some group1_strip_total [OF captures_patterns(4)] obtain g where "group1_strip s = Inr g"
      by blast
    with Some y l x \<open>re_search P_address_label text = Some x\<close> show ?thesis
      by (simp add: label_capture_def bindE_def)
  qed
qed

lemma global_suite_total: "\<exists>a s. global_suite text as = Inr (a, s)"
proof (cases as)
  case (Pair address suite)
  show ?thesis
  proof (cases "re_search P_suite text")
    case None
    with Pair show ?thesis by (simp add: global_suite_def)
  next
    case (Some y)
    obtain skipped s where y: "y = (skipped, s)" by (cases y)
    with Some group1_strip_total [OF captures_patterns(4)] obtain g where "group1_strip s = Inr g"
      by blast
    with Some y Pair show ?thesis by (simp add: global_suite_def bindE_def)
  qed
qed

lemma extract_address_and_suite_total: "\<exists>a s. extract_address_and_suite text = Inr (a, s)"
proof -
  obtain a1 s1 where 1: "label_capture text = Inr (a1, s1)"
    using label_capture_total by blast
  obtain a2 s2 where 2: "(if \<not> truthy a1 then street_scan (map strip (splitlines text)) (a1, s1)
                else Inr (a1, s1)) = Inr (a2, s2)"
    using street_scan_total [of "map strip (splitlines text)" a1 s1] by (cases "truthy a1") auto
  obtain a3 s3 where 3: "global_suite text (a2, s2) = Inr (a3, s3)"
    using global_suite_total by blast
  from 1 2 3 show ?thesis
    by (simp add: extract_address_and_suite_def bindE_def Let_def)
qed

lemma street_scan_no_street:
  "\<forall>l \<in> set ls. re_search street_pat l = None \<Longrightarrow> street_scan ls (address, suite) = Inr (address, suite)"
  by (induction ls) simp_all

lemma extract_address_and_suite_no_match:
  assumes "re_search P_address_label text = None"
    and "\<forall>l \<in> set (map strip (splitlines text)). re_search street_pat l = None"
  shows "\<exists>s. extract_address_and_suite text = Inr (None, s) \<and> (re_search P_suite text = None \<longrightarrow> s = None)"
proof -
  have n: "\<not> truthy None" by (simp add: truthy_def)
  from assms(1) have 1: "label_capture text = Inr (None, None)"
    by (simp add: label_capture_def)
  from assms(2) have 2: "street_scan (map strip (splitlines text)) (None, None) = Inr (None, None)"
    by (rule street_scan_no_street)
  obtain a s where 3: "global_suite text (None, None) = Inr (a, s)"
    using global_suite_total by blast
  then have a: "a = None" and s: "re_search P_suite text = None \<longrightarrow> s = None"
    by (auto simp: global_suite_def n bindE_def split: option.splits sum.splits)
  from 1 2 3 a have "extract_address_and_suite text = Inr (None, s)"
    by (simp add: extract_address_and_suite_def bindE_def Let_def n)
  then show ?thesis using s by (intro exI [of _ s] conjI)
qed

section \<open>The record the pipeline returns\<close>

lemma extract_explicit:
  assumes "first_match P_tenant text = Inr tenant"
    and "first_match P_landlord text = Inr landlord"
    and "extract_address_and_suite text = Inr (address, suite)"
    and "first_match P_square_feet text = Inr square_feet_raw"
    and "first_match P_commencement text = Inr commence_raw"
    and "first_match P_expiration text = Inr expire_raw"
    and "first_match P_proportionate_share text = Inr proportionate_share"
    and "first_match P_base_year text = Inr base_year"
    and "first_match P_security_deposit text = Inr deposit_match"
  shows "extract_lease_facts_from_text parse text =
     Inr (map_of
          [(''tenant_name'', tenant),
           (''landlord_name'', landlord),
           (''property_address'', address),
           (''suite'', suite),
           (''property_address_and_suite'', combined_addr address suite),
           (''total_square_feet'', if_truthy square_feet_raw (\<lambda>raw. Some (re_sub P_not_numeric raw))),
           (''lease_commencement_date'', if_truthy commence_raw (normalize_date parse)),
           (''lease_expiration_date'', if_truthy expire_raw (normalize_date parse)),
           (''proportionate_share'', proportionate_share),
           (''base_year'', base_year),
           (''security_deposit'',
              if truthy deposit_match then deposit_match
              else if re_search P_deposit_none text \<noteq> None then Some ''None'' else None)])"
proof -
  have t: "truthy (Some ''None'')" by (simp add: truthy_def)
  have n: "\<not> truthy None" by (simp add: truthy_def)
  show ?thesis
    unfolding extract_lease_facts_from_text_def
    by (simp only: assms bindE_def sum.case prod.case Let_def) (simp add: t n)
qed

lemma dom_extracted:
  "dom (map_of
          [(''tenant_name'', v1), (''landlord_name'', v2), (''property_address'', v3),
           (''suite'', v4), (''property_address_and_suite'', v5), (''total_square_feet'', v6),
           (''lease_commencement_date'', v7), (''lease_expiration_date'', v8),
           (''proportionate_share'', v9), (''base_year'', v10), (''security_deposit'', v11)])
   = canonical_keys"
  unfolding dom_map_of_conv_image_fst canonical_keys_def by auto

lemma extract_lookup:
  "\<exists>r. extract_lease_facts_from_text parse text = Inr r
     \<and> dom r = canonical_keys
     \<and> first_match P_tenant text = Inr (dict_get r ''tenant_name'')
     \<and> first_match P_landlord text = Inr (dict_get r ''landlord_name'')
     \<and> extract_address_and_suite text = Inr (dict_get r ''property_address'', dict_get r ''suite'')
     \<and> dict_get r ''property_address_and_suite''
         = combined_addr (dict_get r ''property_address'') (dict_get r ''suite'')
     \<and> (\<exists>raw. first_match P_square_feet text = Inr raw
           \<and> dict_get r ''total_square_feet'' = if_truthy raw (\<lambda>raw. Some (re_sub P_not_numeric raw)))
     \<and> (\<exists>raw. first_match P_commencement text = Inr raw
           \<and> dict_get r ''lease_commencement_date'' = if_truthy raw (normalize_date parse))
     \<and> (\<exists>raw. first_match P_expiration text = Inr raw
           \<and> dict_get r ''lease_expiration_date'' = if_truthy raw (normalize_date parse))
     \<and> first_match P_proportionate_share text = Inr (dict_get r ''proportionate_share'')
     \<and> first_match P_base_year text = Inr (dict_get r ''base_year'')
     \<and> (\<exists>d. first_match P_security_deposit text = Inr d
           \<and> dict_get r ''security_deposit''
               = (if truthy d then d
                  else if re_search P_deposit_none text \<noteq> None then Some ''None'' else None))"
proof -
  obtain tenant where 1: "first_match P_tenant text = Inr tenant"
    using first_match_total [OF captures_patterns(1)] by blast
  obtain landlord where 2: "first_match P_landlord text = Inr landlord"
    using first_match_total [OF captures_patterns(2)] by blast
  obtain address suite where 3: "extract_address_and_suite text = Inr (address, suite)"
    using extract_address_and_suite_total by blast
  obtain square_feet_raw where 4: "first_match P_square_feet text = Inr square_feet_raw"
    using first_match_total [OF captures_patterns(5)] by blast
  obtain commence_raw where 5: "first_match P_commencement text = Inr commence_raw"
    using first_match_total [OF captures_patterns(6)] by blast
  obtain expire_raw where 6: "first_match P_expiration text = Inr expire_raw"
    using first_match_total [OF captures_patterns(7)] by blast
  obtain proportionate_share where 7: "first_match P_proportionate_share text = Inr proportionate_share"
    using first_match_total [OF captures_patterns(8)] by blast
  obtain base_year where 8: "first_match P_base_year text = Inr base_year"
    using first_match_total [OF captures_patterns(9)] by blast
  obtain deposit_match where 9: "first_match P_security_deposit text = Inr deposit_match"
    using first_match_total [OF captures_patterns(10)] by blast
  define r where "r = map_of
          [(''tenant_name'', tenant),
           (''landlord_name'', landlord),
           (''property_address'', address),
           (''suite'', suite),
           (''property_address_and_suite'', combined_addr address suite),
           (''total_square_feet'', if_truthy square_feet_raw (\<lambda>raw. Some (re_sub P_not_numeric raw))),
           (''lease_commencement_date'', if_truthy commence_raw (normalize_date parse)),
           (''lease_expiration_date'', if_truthy expire_raw (normalize_date parse)),
           (''proportionate_share'', proportionate_share),
           (''base_year'', base_year),
           (''security_deposit'',
              if truthy deposit_match then deposit_match
              else if re_search P_deposit_none text \<noteq> None then Some ''None'' else None)]"
  have a: "extract_lease_facts_from_text parse text = Inr r"
    unfolding r_def by (rule extract_explicit [OF 1 2 3 4 5 6 7 8 9])
  have d: "dom r = canonical_keys"
    unfolding r_def by (rule dom_extracted)
  have g1: "dict_get r ''tenant_name'' = tenant"
    by (simp add: r_def dict_get_def)
  have g2: "dict_get r ''landlord_name'' = landlord"
    by (simp add: r_def dict_get_def)
  have g3: "dict_get r ''property_address'' = address"
    by (simp add: r_def dict_get_def)
  have g4: "dict_get r ''suite'' = suite"
    by (simp add: r_def dict_get_def)
  have g5: "dict_get r ''property_address_and_suite'' = combined_addr address suite"
    by (simp add: r_def dict_get_def)
  have g6: "dict_get r ''total_square_feet''
      = if_truthy square_feet_raw (\<lambda>raw. Some (re_sub P_not_numeric raw))"
    by (simp add: r_def dict_get_def)
  have g7: "dict_get r ''lease_commencement_date'' = if_truthy commence_raw (normalize_date parse)"
    by (simp add: r_def dict_get_def)
  have g8: "dict_get r ''lease_expiration_date'' = if_truthy expire_raw (normalize_date parse)"
    by (simp add: r_def dict_get_def)
  have g9: "dict_get r ''proportionate_share'' = proportionate_share"
    by (simp add: r_def dict_get_def)
  have g10: "dict_get r ''base_year'' = base_year"
    by (simp add: r_def dict_get_def)
  have g11: "dict_get r ''security_deposit''
      = (if truthy deposit_match then deposit_match
         else if re_search P_deposit_none text \<noteq> None then Some ''None'' else None)"
    by (simp add: r_def dict_get_def)
  have c6: "\<exists>raw. first_match P_square_feet text = Inr raw
           \<and> dict_get r ''total_square_feet'' = if_truthy raw (\<lambda>raw. Some (re_sub P_not_numeric raw))"
    using 4 g6 by blast
  have c7: "\<exists>raw. first_match P_commencement text = Inr raw
           \<and> dict_get r ''lease_commencement_date'' = if_truthy raw (normalize_date parse)"
    using 5 g7 by blast
  have c8: "\<exists>raw. first_match P_expiration text = Inr raw
           \<and> dict_get r ''lease_expiration_date'' = if_truthy raw (normalize_date parse)"
    using 6 g8 by blast
  have c11: "\<exists>d. first_match P_security_deposit text = Inr d
           \<and> dict_get r ''security_deposit''
               = (if truthy d then d
                  else if re_search P_deposit_none text \<noteq> None then Some ''None'' else None)"
    using 9 g11 by blast
  show ?thesis
    apply (rule exI [of _ r])
    apply (intro conjI a d c6 c7 c8 c11)
    apply (simp_all only: g1 g2 g3 g4 g5 g9 g10 1 2 3 7 8)
    done
qed

text \<open>
  Claim C9. The pipeline is total: for every text, and whatever the date parser does, it
  returns a record with exactly the eleven keys and raises nothing. Every field of
  that record is what its own extractor returns for the text, whether or not any
  other extractor finds a match. A field whose
  pattern finds no match is missing (the address when neither the label nor a street
  line is found, the suite when in addition no suite marker is found); a date whose
  captured text the parser rejects is missing; and the parser's behaviour changes no
  field other than the two dates.
\<close>

theorem extract_lease_facts_total:
  "\<exists>r r'. extract_lease_facts_from_text parse text = Inr r
     \<and> dom r = canonical_keys
     \<and> first_match P_tenant text = Inr (dict_get r ''tenant_name'')
     \<and> first_match P_landlord text = Inr (dict_get r ''landlord_name'')
     \<and> extract_address_and_suite text = Inr (dict_get r ''property_address'', dict_get r ''suite'')
     \<and> dict_get r ''property_address_and_suite''
         = combined_addr (dict_get r ''property_address'') (dict_get r ''suite'')
     \<and> (\<exists>raw. first_match P_square_feet text = Inr raw
           \<and> dict_get r ''total_square_feet'' = if_truthy raw (\<lambda>raw. Some (re_sub P_not_numeric raw)))
     \<and> (\<exists>raw. first_match P_commencement text = Inr raw
           \<and> dict_get r ''lease_commencement_date'' = if_truthy raw (normalize_date parse))
     \<and> (\<exists>raw. first_match P_expiration text = Inr raw
           \<and> dict_get r ''lease_expiration_date'' = if_truthy raw (normalize_date parse))
     \<and> first_match P_proportionate_share text = Inr (dict_get r ''proportionate_share'')
     \<and> first_match P_base_year text = Inr (dict_get r ''base_year'')
     \<and> (\<exists>d. first_match P_security_deposit text = Inr d
           \<and> dict_get r ''security_deposit''
               = (if truthy d then d
                  else if re_search P_deposit_none text \<noteq> None then Some ''None'' else None))
     \<and> (re_search P_tenant text = None \<longrightarrow> r ''tenant_name'' = Some None)
     \<and> (re_search P_landlord text = None \<longrightarrow> r ''landlord_name'' = Some None)
     \<and> (re_search P_square_feet text = None \<longrightarrow> r ''total_square_feet'' = Some None)
     \<and> (re_search P_commencement text = None \<longrightarrow> r ''lease_commencement_date'' = Some None)
     \<and> (re_search P_expiration text = None \<longrightarrow> r ''lease_expiration_date'' = Some None)
     \<and> (re_search P_proportionate_share text = None \<longrightarrow> r ''proportionate_share'' = Some None)
     \<and> (re_search P_base_year text = None \<longrightarrow> r ''base_year'' = Some None)
     \<and> (re_search P_security_deposit text = None \<and> re_search P_deposit_none text = None
          \<longrightarrow> r ''security_deposit'' = Some None)
     \<and> (re_search P_address_label text = None
          \<and> (\<forall>l \<in> set (map strip (splitlines text)). re_search street_pat l = None)
          \<longrightarrow> r ''property_address'' = Some None)
     \<and> (re_search P_address_label text = None
          \<and> (\<forall>l \<in> set (map strip (splitlines text)). re_search street_pat l = None)
          \<and> re_search P_suite text = None
          \<longrightarrow> r ''suite'' = Some None \<and> r ''property_address_and_suite'' = Some None)
     \<and> (\<forall>c e. first_match P_commencement text = Inr (Some c) \<and> parse c = Inl e
          \<longrightarrow> r ''lease_commencement_date'' = Some None)
     \<and> (\<forall>c e. first_match P_expiration text = Inr (Some c) \<and> parse c = Inl e
          \<longrightarrow> r ''lease_expiration_date'' = Some None)
     \<and> extract_lease_facts_from_text parse' text = Inr r'
     \<and> (\<forall>k. k \<noteq> ''lease_commencement_date'' \<and> k \<noteq> ''lease_expiration_date'' \<longrightarrow> r' k = r k)"
proof -
  obtain tenant where 1: "first_match P_tenant text = Inr tenant"
    and n1: "re_search P_tenant text = None \<longrightarrow> tenant = None"
    using first_match_total [OF captures_patterns(1)] by blast
  obtain landlord where 2: "first_match P_landlord text = Inr landlord"
    and n2: "re_search P_landlord text = None \<longrightarrow> landlord = None"
    using first_match_total [OF captures_patterns(2)] by blast
  obtain address suite where 3: "extract_address_and_suite text = Inr (address, suite)"
    using extract_address_and_suite_total by blast
  obtain square_feet_raw where 4: "first_match P_square_feet text = Inr square_feet_raw"
    and n4: "re_search P_square_feet text = None \<longrightarrow> square_feet_raw = None"
    using first_match_total [OF captures_patterns(5)] by blast
  obtain commence_raw where 5: "first_match P_commencement text = Inr commence_raw"
    and n5: "re_search P_commencement text = None \<longrightarrow> commence_raw = None"
    using first_match_total [OF captures_patterns(6)] by blast
  obtain expire_raw where 6: "first_match P_expiration text = Inr expire_raw"
    and n6: "re_search P_expiration text = None \<longrightarrow> expire_raw = None"
    using first_match_total [OF captures_patterns(7)] by blast
  obtain proportionate_share where 7: "first_match P_proportionate_share text = Inr proportionate_share"
    and n7: "re_search P_proportionate_share text = None \<longrightarrow> proportionate_share = None"
    using first_match_total [OF captures_patterns(8)] by blast
  obtain base_year where 8: "first_match P_base_year text = Inr base_year"
    and n8: "re_search P_base_year text = None \<longrightarrow> base_year = None"
    using first_match_total [OF captures_patterns(9)] by blast
  obtain deposit_match where 9: "first_match P_security_deposit text = Inr deposit_match"
    and n9: "re_search P_security_deposit text = None \<longrightarrow> deposit_match = None"
    using first_match_total [OF captures_patterns(10)] by blast
  note e = extract_explicit [OF 1 2 3 4 5 6 7 8 9]
  let ?r = "\<lambda>p. map_of
          [(''tenant_name'', tenant),
           (''landlord_name'', landlord),
           (''property_address'', address),
           (''suite'', suite),
           (''property_address_and_suite'', combined_addr address suite),
           (''total_square_feet'', if_truthy square_feet_raw (\<lambda>raw. Some (re_sub P_not_numeric raw))),
           (''lease_commencement_date'', if_truthy commence_raw (normalize_date p)),
           (''lease_expiration_date'', if_truthy expire_raw (normalize_date p)),
           (''proportionate_share'', proportionate_share),
           (''base_year'', base_year),
           (''security_deposit'',
              if truthy deposit_match then deposit_match
              else if re_search P_deposit_none text \<noteq> None then Some ''None'' else None)]"
  define r where "r = ?r parse"
  define r' where "r' = ?r parse'"
  have a: "extract_lease_facts_from_text parse text = Inr r"
    unfolding r_def by (rule e)
  have b: "extract_lease_facts_from_text parse' text = Inr r'"
    unfolding r'_def by (rule e)
  have d: "dom r = canonical_keys"
    unfolding r_def by (rule dom_extracted)
  have f1: "re_search P_tenant text = None \<longrightarrow> r ''tenant_name'' = Some None"
    using n1 by (simp add: r_def)
  have f2: "re_search P_landlord text = None \<longrightarrow> r ''landlord_name'' = Some None"
    using n2 by (simp add: r_def)
  have f4: "re_search P_square_feet text = None \<longrightarrow> r ''total_square_feet'' = Some None"
    using n4 by (simp add: r_def if_truthy_def)
  have f5: "re_search P_commencement text = None \<longrightarrow> r ''lease_commencement_date'' = Some None"
    using n5 by (simp add: r_def if_truthy_def)
  have f6: "re_search P_expiration text = None \<longrightarrow> r ''lease_expiration_date'' = Some None"
    using n6 by (simp add: r_def if_truthy_def)
  have f7: "re_search P_proportionate_share text = None \<longrightarrow> r ''proportionate_share'' = Some None"
    using n7 by (simp add: r_def)
  have f8: "re_search P_base_year text = None \<longrightarrow> r ''base_year'' = Some None"
    using n8 by (simp add: r_def)
  have f9: "re_search P_security_deposit text = None \<and> re_search P_deposit_none text = None
          \<longrightarrow> r ''security_deposit'' = Some None"
    using n9 by (simp add: r_def truthy_def)
  have f3: "re_search P_address_label text = None
          \<and> (\<forall>l \<in> set (map strip (splitlines text)). re_search street_pat l = None)
          \<longrightarrow> r ''property_address'' = Some None"
  proof
    assume h: "re_search P_address_label text = None
          \<and> (\<forall>l \<in> set (map strip (splitlines text)). re_search street_pat l = None)"
    from h have h1: "re_search P_address_label text = None" by (rule conjunct1)
    from h have h2: "\<forall>l \<in> set (map strip (splitlines text)). re_search street_pat l = None"
      by (rule conjunct2)
    from extract_address_and_suite_no_match [OF h1 h2]
    obtain s where "extract_address_and_suite text = Inr (None, s)"
      by (elim conjE exE)
    with 3 have "address = None" by simp
    then show "r ''property_address'' = Some None" by (simp add: r_def)
  qed
  have f3': "re_search P_address_label text = None
          \<and> (\<forall>l \<in> set (map strip (splitlines text)). re_search street_pat l = None)
          \<and> re_search P_suite text = None
          \<longrightarrow> r ''suite'' = Some None \<and> r ''property_address_and_suite'' = Some None"
  proof
    assume h: "re_search P_address_label text = None
          \<and> (\<forall>l \<in> set (map strip (splitlines text)). re_search street_pat l = None)
          \<and> re_search P_suite text = None"
    from h have h1: "re_search P_address_label text = None" by (rule conjunct1)
    from h have h2: "\<forall>l \<in> set (map strip (splitlines text)). re_search street_pat l = None"
      by (elim conjE)
    from h have h3: "re_search P_suite text = None" by (elim conjE)
    from extract_address_and_suite_no_match [OF h1 h2]
    obtain s where "extract_address_and_suite text = Inr (None, s)"
      and "re_search P_suite text = None \<longrightarrow> s = None"
      by (elim conjE exE)
    with 3 h3 have "address = None" and "suite = None" by simp_all
    then show "r ''suite'' = Some None \<and> r ''property_address_and_suite'' = Some None"
      by (simp add: r_def combined_addr_def truthy_def)
  qed
  have g5: "\<forall>c e. first_match P_commencement text = Inr (Some c) \<and> parse c = Inl e
          \<longrightarrow> r ''lease_commencement_date'' = Some None"
    using 5 by (auto simp: r_def if_truthy_def normalize_date_def)
  have g6: "\<forall>c e. first_match P_expiration text = Inr (Some c) \<and> parse c = Inl e
          \<longrightarrow> r ''lease_expiration_date'' = Some None"
    using 6 by (auto simp: r_def if_truthy_def normalize_date_def)
  have h: "\<forall>k. k \<noteq> ''lease_commencement_date'' \<and> k \<noteq> ''lease_expiration_date''
          \<longrightarrow> r' k = r k"
    by (simp add: r_def r'_def)
  have e1: "first_match P_tenant text = Inr (dict_get r ''tenant_name'')"
    using 1 by (simp add: r_def dict_get_def)
  have e2: "first_match P_landlord text = Inr (dict_get r ''landlord_name'')"
    using 2 by (simp add: r_def dict_get_def)
  have e3: "extract_address_and_suite text
      = Inr (dict_get r ''property_address'', dict_get r ''suite'')"
    using 3 by (simp add: r_def dict_get_def)
  have e4: "dict_get r ''property_address_and_suite''
      = combined_addr (dict_get r ''property_address'') (dict_get r ''suite'')"
    by (simp add: r_def dict_get_def)
  have e5: "first_match P_square_feet text = Inr square_feet_raw
      \<and> dict_get r ''total_square_feet''
          = if_truthy square_feet_raw (\<lambda>raw. Some (re_sub P_not_numeric raw))"
    using 4 by (simp add: r_def dict_get_def)
  have e6: "first_match P_commencement text = Inr commence_raw
      \<and> dict_get r ''lease_commencement_date'' = if_truthy commence_raw (normalize_date parse)"
    using 5 by (simp add: r_def dict_get_def)
  have e7: "first_match P_expiration text = Inr expire_raw
      \<and> dict_get r ''lease_expiration_date'' = if_truthy expire_raw (normalize_date parse)"
    using 6 by (simp add: r_def dict_get_def)
  have e8: "first_match P_proportionate_share text = Inr (dict_get r ''proportionate_share'')"
    using 7 by (simp add: r_def dict_get_def)
  have e9: "first_match P_base_year text = Inr (dict_get r ''base_year'')"
    using 8 by (simp add: r_def dict_get_def)
  have e10: "first_match P_security_deposit text = Inr deposit_match
      \<and> dict_get r ''security_deposit''
          = (if truthy deposit_match then deposit_match
             else if re_search P_deposit_none text \<noteq> None then Some ''None'' else None)"
    using 9 by (simp add: r_def dict_get_def)
  have x5: "\<exists>raw. first_match P_square_feet text = Inr raw
           \<and> dict_get r ''total_square_feet'' = if_truthy raw (\<lambda>raw. Some (re_sub P_not_numeric raw))"
    using e5 by blast
  have x6: "\<exists>raw. first_match P_commencement text = Inr raw
           \<and> dict_get r ''lease_commencement_date'' = if_truthy raw (normalize_date parse)"
    using e6 by blast
  have x7: "\<exists>raw. first_match P_expiration text = Inr raw
           \<and> dict_get r ''lease_expiration_date'' = if_truthy raw (normalize_date parse)"
    using e7 by blast
  have x10: "\<exists>d. first_match P_security_deposit text = Inr d
           \<and> dict_get r ''security_deposit''
               = (if truthy d then d
                  else if re_search P_deposit_none text \<noteq> None then Some ''None'' else None)"
    using e10 by blast
  show ?thesis
    by (rule exI [of _ r], rule exI [of _ r'])
      (intro conjI a b d e1 e2 e3 e4 x5 x6 x7 e8 e9 x10
        f1 f2 f4 f5 f6 f7 f8 f9 f3 f3' g5 g6 h)
qed

theorem extract_lease_facts_total_witness:
  "\<exists>r. extract_lease_facts_from_text (\<lambda>v. Inl ParserError)
          (''Landlord: Big Realty LLC'' @ [CHR 0x0A] @ ''Commencement Date: soon'') = Inr r
     \<and> dom r = canonical_keys
     \<and> re_search P_tenant
          (''Landlord: Big Realty LLC'' @ [CHR 0x0A] @ ''Commencement Date: soon'') = None
     \<and> r ''tenant_name'' = Some None
     \<and> first_match P_landlord
          (''Landlord: Big Realty LLC'' @ [CHR 0x0A] @ ''Commencement Date: soon'')
          = Inr (Some ''Big Realty LLC'')
     \<and> dict_get r ''landlord_name'' = Some ''Big Realty LLC''
     \<and> first_match P_commencement
          (''Landlord: Big Realty LLC'' @ [CHR 0x0A] @ ''Commencement Date: soon'')
          = Inr (Some ''soon'')
     \<and> r ''lease_commencement_date'' = Some None
     \<and> re_search P_base_year
          (''Landlord: Big Realty LLC'' @ [CHR 0x0A] @ ''Commencement Date: soon'') = None
     \<and> r ''base_year'' = Some None
     \<and> r ''security_deposit'' = Some None
     \<and> r ''property_address'' = Some None
     \<and> r ''suite'' = Some None"
proof -
  define t where "t = ''Landlord: Big Realty LLC'' @ [CHR 0x0A] @ ''Commencement Date: soon''"
  define p :: "string \<Rightarrow> error + datetime" where "p = (\<lambda>v. Inl ParserError)"
  have 1: "re_search P_tenant t = None" unfolding t_def by code_simp
  have 2: "re_search P_base_year t = None" unfolding t_def by code_simp
  have 3: "re_search P_security_deposit t = None" unfolding t_def by code_simp
  have 4: "re_search P_deposit_none t = None" unfolding t_def by code_simp
  have 5: "first_match P_commencement t = Inr (Some ''soon'')" unfolding t_def by code_simp
  have 6: "p ''soon'' = Inl ParserError" by (simp add: p_def)
  have 7: "re_search P_address_label t = None" unfolding t_def by code_simp
  have 8: "\<forall>l \<in> set (map strip (splitlines t)). re_search street_pat l = None"
    unfolding t_def by code_simp
  have 9: "re_search P_suite t = None" unfolding t_def by code_simp
  have 10: "first_match P_landlord t = Inr (Some ''Big Realty LLC'')" unfolding t_def by code_simp
  from extract_lease_facts_total [of p t p]
  obtain r r' where r: "extract_lease_facts_from_text p t = Inr r"
    and "extract_lease_facts_from_text p t = Inr r'"
    and d: "dom r = canonical_keys"
    and l: "first_match P_landlord t = Inr (dict_get r ''landlord_name'')"
    and a: "re_search P_tenant t = None \<longrightarrow> r ''tenant_name'' = Some None"
    and b: "re_search P_base_year t = None \<longrightarrow> r ''base_year'' = Some None"
    and c: "re_search P_security_deposit t = None \<and> re_search P_deposit_none t = None
          \<longrightarrow> r ''security_deposit'' = Some None"
    and f: "re_search P_address_label t = None
          \<and> (\<forall>l \<in> set (map strip (splitlines t)). re_search street_pat l = None)
          \<longrightarrow> r ''property_address'' = Some None"
    and g: "re_search P_address_label t = None
          \<and> (\<forall>l \<in> set (map strip (splitlines t)). re_search street_pat l = None)
          \<and> re_search P_suite t = None
          \<longrightarrow> r ''suite'' = Some None \<and> r ''property_address_and_suite'' = Some None"
    and e: "\<forall>c e. first_match P_commencement t = Inr (Some c) \<and> p c = Inl e
          \<longrightarrow> r ''lease_commencement_date'' = Some None"
    by (elim exE conjE)
  from l 10 have l': "dict_get r ''landlord_name'' = Some ''Big Realty LLC''" by simp
  from a 1 have a': "r ''tenant_name'' = Some None" by simp
  from b 2 have b': "r ''base_year'' = Some None" by simp
  from c 3 4 have c': "r ''security_deposit'' = Some None" by simp
  from f 7 8 have f': "r ''property_address'' = Some None" by simp
  from g 7 8 9 have g': "r ''suite'' = Some None" by simp
  from e 5 6 have e': "r ''lease_commencement_date'' = Some None" by blast
  have fin: "extract_lease_facts_from_text p t = Inr r
     \<and> dom r = canonical_keys
     \<and> re_search P_tenant t = None
     \<and> r ''tenant_name'' = Some None
     \<and> first_match P_landlord t = Inr (Some ''Big Realty LLC'')
     \<and> dict_get r ''landlord_name'' = Some ''Big Realty LLC''
     \<and> first_match P_commencement t = Inr (Some ''soon'')
     \<and> r ''lease_commencement_date'' = Some None
     \<and> re_search P_base_year t = None
     \<and> r ''base_year'' = Some None
     \<and> r ''security_deposit'' = Some None
     \<and> r ''property_address'' = Some None
     \<and> r ''suite'' = Some None"
    by (intro conjI r d 1 a' 10 l' 5 e' 2 b' c' f' g')
  show ?thesis
    by (rule exI [of _ r]) (rule fin [unfolded t_def p_def])
qed

section \<open>Single fields of the returned record\<close>

lemma re_search_from_Seq_None:
  "re_search_from a prev s = None \<Longrightarrow> re_search_from (Seq a b) prev s = None"
proof (induction s arbitrary: prev)
  case Nil
  then show ?case by (simp split: list.splits)
next
  case (Cons c cs)
  then show ?case by (simp split: list.splits)
qed

lemma no_label_no_deposit:
  assumes "re_search security_deposit_label text = None"
  shows "re_search P_security_deposit text = None" and "re_search P_deposit_none text = None"
  using assms unfolding re_search_def P_security_deposit_def P_deposit_none_def
  by (rule re_search_from_Seq_None)+

lemma first_match_None: "re_search r text = None \<Longrightarrow> first_match r text = Inr None"
  by (simp add: first_match_def)

lemma scenario_document_address:
  "extract_address_and_suite scenario_document = Inr (Some ''123 Main Street'', Some ''4B'')"
  unfolding scenario_document_def by code_simp

lemma scenario_document_commencement:
  "first_match P_commencement scenario_document = Inr (Some ''March 1, 2023'')"
  unfolding scenario_document_def by code_simp

lemma scenario_document_deposit:
  "first_match P_security_deposit scenario_document = Inr None"
  "re_search P_deposit_none scenario_document \<noteq> None"
  unfolding scenario_document_def by code_simp+

lemma address_fields:
  assumes "extract_address_and_suite t = Inr (Some a, Some s)" and "a \<noteq> []" and "s \<noteq> []"
  shows "\<exists>r. extract_lease_facts_from_text parse t = Inr r
     \<and> dict_get r ''property_address'' = Some a
     \<and> dict_get r ''suite'' = Some s
     \<and> dict_get r ''property_address_and_suite'' = Some (a @ '' Suite '' @ s)"
proof -
  obtain r where r: "extract_lease_facts_from_text parse t = Inr r"
    and as: "extract_address_and_suite t = Inr (dict_get r ''property_address'', dict_get r ''suite'')"
    and c: "dict_get r ''property_address_and_suite''
         = combined_addr (dict_get r ''property_address'') (dict_get r ''suite'')"
    using extract_lookup [of parse t] by (elim exE conjE)
  from as assms(1) have a: "dict_get r ''property_address'' = Some a"
    and s: "dict_get r ''suite'' = Some s"
    by simp_all
  from c a s assms(2,3) have c': "dict_get r ''property_address_and_suite'' = Some (a @ '' Suite '' @ s)"
    by (simp add: combined_addr_def truthy_def py_str_def)
  show ?thesis
    by (rule exI [of _ r]) (intro conjI r a s c')
qed

lemma deposit_field:
  assumes "first_match P_security_deposit t = Inr d"
  shows "\<exists>r. extract_lease_facts_from_text parse t = Inr r
     \<and> dict_get r ''security_deposit''
         = (if truthy d then d
            else if re_search P_deposit_none t \<noteq> None then Some ''None'' else None)"
proof -
  obtain r d' where r: "extract_lease_facts_from_text parse t = Inr r"
    and d': "first_match P_security_deposit t = Inr d'"
    and v: "dict_get r ''security_deposit''
               = (if truthy d' then d'
                  else if re_search P_deposit_none t \<noteq> None then Some ''None'' else None)"
    using extract_lookup [of parse t] by (elim exE conjE)
  from d' assms have "d' = d" by simp
  with v have v': "dict_get r ''security_deposit''
         = (if truthy d then d
            else if re_search P_deposit_none t \<noteq> None then Some ''None'' else None)"
    by simp
  show ?thesis
    by (rule exI [of _ r]) (intro conjI r v')
qed

lemma commencement_field:
  assumes "first_match P_commencement t = Inr raw"
  shows "\<exists>r. extract_lease_facts_from_text parse t = Inr r
     \<and> dict_get r ''lease_commencement_date'' = if_truthy raw (normalize_date parse)"
proof -
  obtain r raw' where r: "extract_lease_facts_from_text parse t = Inr r"
    and d': "first_match P_commencement t = Inr raw'"
    and v: "dict_get r ''lease_commencement_date'' = if_truthy raw' (normalize_date parse)"
    using extract_lookup [of parse t] by (elim exE conjE)
  from d' assms have "raw' = raw" by simp
  with v have v': "dict_get r ''lease_commencement_date'' = if_truthy raw (normalize_date parse)"
    by simp
  show ?thesis
    by (rule exI [of _ r]) (intro conjI r v')
qed

section \<open>The security deposit\<close>

text \<open>
  Claim C7. For the text \<^verbatim>\<open>Security Deposit: None\<close>, alone or as a line of the scenario
  document, the extracted security deposit is the string \<^verbatim>\<open>None\<close>. For every text in
  which neither the amount pattern nor the explicit-none pattern matches, and so for
  every text in which the label \<^verbatim>\<open>Security Deposit\<close> itself matches nowhere, the
  security deposit is missing.
\<close>

theorem security_deposit_none_or_missing:
  "(\<exists>r. extract_lease_facts_from_text parse ''Security Deposit: None'' = Inr r
      \<and> dict_get r ''security_deposit'' = Some ''None'')
   \<and> (\<exists>r. extract_lease_facts_from_text parse scenario_document = Inr r
      \<and> dict_get r ''security_deposit'' = Some ''None'')
   \<and> (\<exists>r. extract_lease_facts_from_text parse text = Inr r
      \<and> (re_search P_security_deposit text = None \<and> re_search P_deposit_none text = None
            \<longrightarrow> dict_get r ''security_deposit'' = None)
      \<and> (re_search security_deposit_label text = None
            \<longrightarrow> dict_get r ''security_deposit'' = None))"
proof -
  have n: "\<not> truthy None" by (simp add: truthy_def)
  have 1: "first_match P_security_deposit ''Security Deposit: None'' = Inr None" by code_simp
  have 2: "re_search P_deposit_none ''Security Deposit: None'' \<noteq> None" by code_simp
  have a: "\<exists>r. extract_lease_facts_from_text parse ''Security Deposit: None'' = Inr r
      \<and> dict_get r ''security_deposit'' = Some ''None''"
    using deposit_field [OF 1, of parse] by (simp only: n 2 if_False if_True not_False_eq_True)
  have b: "\<exists>r. extract_lease_facts_from_text parse scenario_document = Inr r
      \<and> dict_get r ''security_deposit'' = Some ''None''"
    using deposit_field [OF scenario_document_deposit(1), of parse]
    by (simp only: n scenario_document_deposit(2) if_False if_True not_False_eq_True)
  obtain d where d: "first_match P_security_deposit text = Inr d"
    using first_match_total [OF captures_patterns(10)] by blast
  from deposit_field [OF d, of parse]
  obtain r where r: "extract_lease_facts_from_text parse text = Inr r"
    and v: "dict_get r ''security_deposit''
               = (if truthy d then d
                  else if re_search P_deposit_none text \<noteq> None then Some ''None'' else None)"
    by (elim exE conjE)
  have c1: "re_search P_security_deposit text = None \<and> re_search P_deposit_none text = None
            \<longrightarrow> dict_get r ''security_deposit'' = None"
  proof
    assume h: "re_search P_security_deposit text = None \<and> re_search P_deposit_none text = None"
    then have "first_match P_security_deposit text = Inr None" by (simp add: first_match_None)
    with d have "d = None" by simp
    with v h n show "dict_get r ''security_deposit'' = None" by simp
  qed
  have c2: "re_search security_deposit_label text = None
            \<longrightarrow> dict_get r ''security_deposit'' = None"
    using c1 no_label_no_deposit by blast
  have c: "\<exists>r. extract_lease_facts_from_text parse text = Inr r
      \<and> (re_search P_security_deposit text = None \<and> re_search P_deposit_none text = None
            \<longrightarrow> dict_get r ''security_deposit'' = None)
      \<and> (re_search security_deposit_label text = None
            \<longrightarrow> dict_get r ''security_deposit'' = None)"
    by (rule exI [of _ r]) (intro conjI r c1 c2)
  show ?thesis by (intro conjI a b c)
qed

theorem security_deposit_none_or_missing_witness:
  "re_search security_deposit_label ''Tenant: Acme Corp'' = None
   \<and> (\<exists>r. extract_lease_facts_from_text (\<lambda>v. Inl ParserError) ''Tenant: Acme Corp'' = Inr r
        \<and> dict_get r ''security_deposit'' = None)"
proof -
  define t where "t = ''Tenant: Acme Corp''"
  define p :: "string \<Rightarrow> error + datetime" where "p = (\<lambda>v. Inl ParserError)"
  have 1: "re_search security_deposit_label t = None" unfolding t_def by code_simp
  from security_deposit_none_or_missing [of p t]
  obtain r where r: "extract_lease_facts_from_text p t = Inr r"
    and "re_search security_deposit_label t = None \<longrightarrow> dict_get r ''security_deposit'' = None"
    by (elim exE conjE)
  with 1 have v: "dict_get r ''security_deposit'' = None" by simp
  have "\<exists>r. extract_lease_facts_from_text p t = Inr r \<and> dict_get r ''security_deposit'' = None"
    by (rule exI [of _ r]) (intro conjI r v)
  with 1 show ?thesis unfolding t_def p_def by (intro conjI)
qed

text \<open>
  The square footage, for comparison with the security deposit: there the captured
  text does pass through the substitution that deletes all but digits and points.
\<close>

lemma square_feet_strips_commas:
  "\<exists>r. extract_lease_facts_from_text parse ''Total Square Feet: 12,345'' = Inr r
     \<and> dict_get r ''total_square_feet'' = Some ''12345''"
proof -
  define t where "t = ''Total Square Feet: 12,345''"
  have 1: "first_match P_square_feet t = Inr (Some ''12,345'')" unfolding t_def by code_simp
  have 2: "re_sub P_not_numeric ''12,345'' = ''12345''" by code_simp
  obtain r raw where r: "extract_lease_facts_from_text parse t = Inr r"
    and "first_match P_square_feet t = Inr raw"
    and "dict_get r ''total_square_feet''
          = if_truthy raw (\<lambda>raw. Some (re_sub P_not_numeric raw))"
    using extract_lookup [of parse t] by (elim exE conjE)
  with 1 2 have v: "dict_get r ''total_square_feet'' = Some ''12345''"
    by (simp add: if_truthy_def)
  show ?thesis
    by (rule exI [of _ r]) (intro conjI r [unfolded t_def] v)
qed

text \<open>
  Claim C3 does not hold of the code: the captured security deposit is returned as it
  was matched, and no character is deleted from it. For the text
  \<^verbatim>\<open>Security Deposit: $1,234.56\<close> the value keeps its comma.
\<close>

theorem security_deposit_keeps_commas:
  "\<exists>r. extract_lease_facts_from_text parse ''Security Deposit: $1,234.56'' = Inr r
     \<and> dict_get r ''security_deposit'' = Some ''1,234.56''
     \<and> CHR '','' \<in> set ''1,234.56''"
proof -
  have 1: "first_match P_security_deposit ''Security Deposit: $1,234.56'' = Inr (Some ''1,234.56'')"
    by code_simp
  have y: "truthy (Some ''1,234.56'')" by (simp add: truthy_def)
  from deposit_field [OF 1, of parse]
  obtain r where r: "extract_lease_facts_from_text parse ''Security Deposit: $1,234.56'' = Inr r"
    and v: "dict_get r ''security_deposit'' = Some ''1,234.56''"
    unfolding if_P [OF y] by (elim exE conjE)
  have m: "CHR '','' \<in> set ''1,234.56''" by simp
  show ?thesis
    by (rule exI [of _ r]) (intro conjI r v m)
qed

section \<open>The address and the suite\<close>

text \<open>
  Claim C8. For the text \<^verbatim>\<open>Address: 123 Main Street, Suite 4B\<close>, alone or as a line of
  the scenario document, the label-based step captures the line, takes \<^verbatim>\<open>4B\<close> as the
  suite, and deletes the suite with its leading comma from the address.
\<close>

theorem address_and_suite_scenario:
  "(\<exists>r. extract_lease_facts_from_text parse ''Address: 123 Main Street, Suite 4B'' = Inr r
     \<and> dict_get r ''property_address'' = Some ''123 Main Street''
     \<and> dict_get r ''suite'' = Some ''4B''
     \<and> dict_get r ''property_address_and_suite'' = Some ''123 Main Street Suite 4B'')
   \<and> (\<exists>r. extract_lease_facts_from_text parse scenario_document = Inr r
     \<and> dict_get r ''property_address'' = Some ''123 Main Street''
     \<and> dict_get r ''suite'' = Some ''4B''
     \<and> dict_get r ''property_address_and_suite'' = Some ''123 Main Street Suite 4B'')"
proof -
  have 1: "extract_address_and_suite ''Address: 123 Main Street, Suite 4B''
      = Inr (Some ''123 Main Street'', Some ''4B'')"
    by code_simp
  have ne: "''123 Main Street'' \<noteq> []" "''4B'' \<noteq> []" by simp_all
  have j: "''123 Main Street'' @ '' Suite '' @ ''4B'' = ''123 Main Street Suite 4B''" by simp
  show ?thesis
    using address_fields [OF 1 ne, of parse] address_fields [OF scenario_document_address ne, of parse]
    unfolding j by (rule conjI)
qed

text \<open>
  Claim C1, as stated, fails. The merger takes each key on its own, so two records
  that each satisfy the documented law merge into one that does not; and for a suite
  without an address the pipeline computes \<^verbatim>\<open>Suite 5\<close>, not the suite alone.
\<close>

theorem combined_address_law_counterexample:
  "dict_get (merge_facts
       [''property_address'' \<mapsto> Some ''1 Main St'',
        ''property_address_and_suite'' \<mapsto> Some ''1 Main St'']
       [''property_address'' \<mapsto> Some ''2 Oak Ave'', ''suite'' \<mapsto> Some ''5'',
        ''property_address_and_suite'' \<mapsto> Some ''2 Oak Ave Suite 5''])
     ''property_address_and_suite''
   \<noteq> documented_combined
       (dict_get (merge_facts
          [''property_address'' \<mapsto> Some ''1 Main St'',
           ''property_address_and_suite'' \<mapsto> Some ''1 Main St'']
          [''property_address'' \<mapsto> Some ''2 Oak Ave'', ''suite'' \<mapsto> Some ''5'',
           ''property_address_and_suite'' \<mapsto> Some ''2 Oak Ave Suite 5''])
        ''property_address'')
       (dict_get (merge_facts
          [''property_address'' \<mapsto> Some ''1 Main St'',
           ''property_address_and_suite'' \<mapsto> Some ''1 Main St'']
          [''property_address'' \<mapsto> Some ''2 Oak Ave'', ''suite'' \<mapsto> Some ''5'',
           ''property_address_and_suite'' \<mapsto> Some ''2 Oak Ave Suite 5''])
        ''suite'')
   \<and> combined_addr None (Some ''5'') \<noteq> documented_combined None (Some ''5'')"
  by (simp add: merge_lookup canonical_keys_def py_or_def dict_get_def truthy_def
      documented_combined_def combined_addr_def py_str_def)

text \<open>
  Claim C1, as amended. In every record the deterministic pipeline returns, the derived
  field is a function of the address and the suite of that record: both joined by
  \<^verbatim>\<open> Suite \<close> when both are non-empty strings, the address when only the address is a
  non-empty string, \<^verbatim>\<open>Suite \<close> followed by the suite when only the suite is a non-empty
  string, and missing otherwise. Where the address is a non-empty string and the suite
  is not the empty string, that is the documented function.
\<close>

theorem extracted_combined_address:
  "\<exists>r. extract_lease_facts_from_text parse text = Inr r
     \<and> (truthy (dict_get r ''property_address'') \<and> truthy (dict_get r ''suite'')
          \<longrightarrow> dict_get r ''property_address_and_suite''
              = Some (py_str (dict_get r ''property_address'') @ '' Suite ''
                      @ py_str (dict_get r ''suite'')))
     \<and> (truthy (dict_get r ''property_address'') \<and> \<not> truthy (dict_get r ''suite'')
          \<longrightarrow> dict_get r ''property_address_and_suite'' = dict_get r ''property_address'')
     \<and> (\<not> truthy (dict_get r ''property_address'') \<and> truthy (dict_get r ''suite'')
          \<longrightarrow> dict_get r ''property_address_and_suite''
              = Some (''Suite '' @ py_str (dict_get r ''suite'')))
     \<and> (\<not> truthy (dict_get r ''property_address'') \<and> \<not> truthy (dict_get r ''suite'')
          \<longrightarrow> dict_get r ''property_address_and_suite'' = None)
     \<and> (truthy (dict_get r ''property_address'') \<and> dict_get r ''suite'' \<noteq> Some []
          \<longrightarrow> dict_get r ''property_address_and_suite''
              = documented_combined (dict_get r ''property_address'') (dict_get r ''suite''))"
proof -
  obtain r where r: "extract_lease_facts_from_text parse text = Inr r"
    and c: "dict_get r ''property_address_and_suite''
         = combined_addr (dict_get r ''property_address'') (dict_get r ''suite'')"
    using extract_lookup [of parse "text"] by (elim exE conjE)
  define a where "a = dict_get r ''property_address''"
  define s where "s = dict_get r ''suite''"
  define v where "v = dict_get r ''property_address_and_suite''"
  have c': "v = combined_addr a s" unfolding v_def a_def s_def by (rule c)
  have 1: "truthy a \<and> truthy s \<longrightarrow> v = Some (py_str a @ '' Suite '' @ py_str s)"
    by (simp add: c' combined_addr_def)
  have 2: "truthy a \<and> \<not> truthy s \<longrightarrow> v = a"
    by (simp add: c' combined_addr_def)
  have 3: "\<not> truthy a \<and> truthy s \<longrightarrow> v = Some (''Suite '' @ py_str s)"
    by (simp add: c' combined_addr_def)
  have 4: "\<not> truthy a \<and> \<not> truthy s \<longrightarrow> v = None"
    by (simp add: c' combined_addr_def)
  have 5: "truthy a \<and> s \<noteq> Some [] \<longrightarrow> v = documented_combined a s"
    by (auto simp: c' combined_addr_def documented_combined_def truthy_def py_str_def
        split: option.splits)
  show ?thesis
    by (rule exI [of _ r])
      (intro conjI r 1 [unfolded a_def s_def v_def] 2 [unfolded a_def s_def v_def]
        3 [unfolded a_def s_def v_def] 4 [unfolded a_def s_def v_def]
        5 [unfolded a_def s_def v_def])
qed

theorem extracted_combined_address_witness:
  "\<exists>r. extract_lease_facts_from_text (\<lambda>v. Inl ParserError) ''Premises - 9 Elm Road #7'' = Inr r
     \<and> truthy (dict_get r ''property_address'') \<and> truthy (dict_get r ''suite'')
     \<and> dict_get r ''property_address'' = Some ''9 Elm Road''
     \<and> dict_get r ''suite'' = Some ''7''
     \<and> dict_get r ''property_address_and_suite'' = Some ''9 Elm Road Suite 7''"
proof -
  define t where "t = ''Premises - 9 Elm Road #7''"
  define p :: "string \<Rightarrow> error + datetime" where "p = (\<lambda>v. Inl ParserError)"
  have 1: "extract_address_and_suite t = Inr (Some ''9 Elm Road'', Some ''7'')"
    unfolding t_def by code_simp
  obtain r0 where r0: "extract_lease_facts_from_text p t = Inr r0"
    and as: "extract_address_and_suite t = Inr (dict_get r0 ''property_address'', dict_get r0 ''suite'')"
    using extract_lookup [of p t] by (elim exE conjE)
  from extracted_combined_address [of p t]
  obtain r where r: "extract_lease_facts_from_text p t = Inr r"
    and b: "truthy (dict_get r ''property_address'') \<and> truthy (dict_get r ''suite'')
          \<longrightarrow> dict_get r ''property_address_and_suite''
              = Some (py_str (dict_get r ''property_address'') @ '' Suite ''
                      @ py_str (dict_get r ''suite''))"
    by (elim exE conjE)
  from r r0 have "r0 = r" by simp
  with as 1 have a: "dict_get r ''property_address'' = Some ''9 Elm Road''"
    and s: "dict_get r ''suite'' = Some ''7''"
    by simp_all
  have ta: "truthy (dict_get r ''property_address'')" by (simp add: a truthy_def)
  have ts: "truthy (dict_get r ''suite'')" by (simp add: s truthy_def)
  from b ta ts have c: "dict_get r ''property_address_and_suite'' = Some ''9 Elm Road Suite 7''"
    by (simp add: a s py_str_def)
  show ?thesis
    by (rule exI [of _ r]) (intro conjI r [unfolded t_def p_def] ta ts a s c)
qed

section \<open>Dates\<close>

text \<open>
  The date format: a valid date whose year has four digits is printed as two digits, a
  hyphen, two digits, a hyphen and four digits; with a year below 1000 the string is
  shorter.
\<close>

declare decimal.simps [simp del]

lemma is_digit_char_of: "k < 10 \<Longrightarrow> is_digit (char_of (48 + k :: nat))"
  by (simp add: is_digit_def Let_def)

lemma decimal_digits: "c \<in> set (decimal n) \<Longrightarrow> is_digit c"
proof (induction n rule: decimal.induct)
  case (1 n)
  show ?case
  proof (cases "n < 10")
    case True
    with "1.prems" show ?thesis by (simp add: decimal.simps [of n] is_digit_char_of)
  next
    case False
    with "1.prems" have "c \<in> set (decimal (n div 10)) \<or> c = char_of (48 + n mod 10)"
      by (auto simp: decimal.simps [of n])
    with "1.IH" False show ?thesis by (auto simp: is_digit_char_of)
  qed
qed

lemma decimal_length: "n < 10 ^ k \<Longrightarrow> 0 < k \<Longrightarrow> length (decimal n) \<le> k"
proof (induction n arbitrary: k rule: decimal.induct)
  case (1 n)
  show ?case
  proof (cases "n < 10")
    case True
    with "1.prems" show ?thesis by (simp add: decimal.simps [of n])
  next
    case False
    from "1.prems" obtain j where k: "k = Suc j"
      by (cases k) auto
    have j: "0 < j"
    proof (rule ccontr)
      assume "\<not> 0 < j"
      with k "1.prems" False show False by simp
    qed
    from k "1.prems" have "n < 10 ^ j * 10" by simp
    then have "n div 10 < 10 ^ j"
      by (rule less_mult_imp_div_less)
    from "1.IH" [OF False this j] False k show ?thesis
      by (simp add: decimal.simps [of n])
  qed
qed

lemma decimal_length_lower: "10 ^ k \<le> n \<Longrightarrow> k < length (decimal n)"
proof (induction n arbitrary: k rule: decimal.induct)
  case (1 n)
  show ?case
  proof (cases k)
    case 0
    then show ?thesis by (simp add: decimal.simps [of n])
  next
    case (Suc j)
    with "1.prems" have n: "10 ^ j * 10 \<le> n" by simp
    then have "10 \<le> n"
      by (metis le_trans mult.commute mult_le_mono2 nat_mult_1_right one_le_numeral one_le_power)
    then have f: "\<not> n < 10" by simp
    from n have "10 ^ j \<le> n div 10"
      by (simp add: less_eq_div_iff_mult_less_eq)
    from "1.IH" [OF f this] f Suc show ?thesis
      by (simp add: decimal.simps [of n])
  qed
qed

lemma zero_pad_shape:
  assumes "n < 10 ^ w" and "0 < w"
  shows "length (zero_pad w n) = w" and "\<forall>c \<in> set (zero_pad w n). is_digit c"
proof -
  from assms have "length (decimal n) \<le> w" by (rule decimal_length)
  then show "length (zero_pad w n) = w" by (simp add: zero_pad_def)
  have "is_digit CHR ''0''" by (simp add: is_digit_def)
  then show "\<forall>c \<in> set (zero_pad w n). is_digit c"
    by (auto simp: zero_pad_def dest: decimal_digits)
qed

lemma strftime_length:
  assumes "valid_datetime dt"
  shows "length (strftime_d_m_Y dt) = 6 + length (decimal (year dt))"
proof -
  from assms have d: "day dt < 10 ^ 2" and m: "month dt < 10 ^ 2"
    by (simp_all add: valid_datetime_def)
  from zero_pad_shape(1) [OF d] zero_pad_shape(1) [OF m] show ?thesis
    by (simp add: strftime_d_m_Y_def)
qed

lemma is_dd_mm_yyyy_length: "is_dd_mm_yyyy s \<Longrightarrow> length s = 10"
  by (auto simp: is_dd_mm_yyyy_def split: list.splits)

lemma strftime_shape:
  assumes "valid_datetime dt" and "1000 \<le> year dt"
  shows "is_dd_mm_yyyy (strftime_d_m_Y dt)"
proof -
  from assms have d: "day dt < 10 ^ 2" and m: "month dt < 10 ^ 2" and y: "year dt < 10 ^ 4"
    and y': "10 ^ 3 \<le> year dt"
    by (simp_all add: valid_datetime_def)
  from zero_pad_shape [OF d] obtain d1 d2 where dd: "zero_pad 2 (day dt) = [d1, d2]"
    and "is_digit d1" "is_digit d2"
    by (cases "zero_pad 2 (day dt)"; cases "tl (zero_pad 2 (day dt))") auto
  from zero_pad_shape [OF m] obtain m1 m2 where mm: "zero_pad 2 (month dt) = [m1, m2]"
    and "is_digit m1" "is_digit m2"
    by (cases "zero_pad 2 (month dt)"; cases "tl (zero_pad 2 (month dt))") auto
  from decimal_length [OF y] decimal_length_lower [OF y']
  have ly: "length (decimal (year dt)) = 4"
    by simp
  then obtain y1 y2 y3 y4 where yy: "decimal (year dt) = [y1, y2, y3, y4]"
    by (auto simp: length_Suc_conv numeral_eq_Suc)
  with decimal_digits [of _ "year dt"]
  have "is_digit y1" "is_digit y2" "is_digit y3" "is_digit y4" by simp_all
  with dd mm yy \<open>is_digit d1\<close> \<open>is_digit d2\<close> \<open>is_digit m1\<close> \<open>is_digit m2\<close>
  show ?thesis by (simp add: strftime_d_m_Y_def is_dd_mm_yyyy_def)
qed

lemma strftime_short_year:
  assumes "valid_datetime dt" and "year dt < 1000"
  shows "\<not> is_dd_mm_yyyy (strftime_d_m_Y dt)"
proof
  assume "is_dd_mm_yyyy (strftime_d_m_Y dt)"
  then have "length (strftime_d_m_Y dt) = 10" by (rule is_dd_mm_yyyy_length)
  with strftime_length [OF assms(1)] have "length (decimal (year dt)) = 4" by simp
  moreover from assms(2) have "year dt < 10 ^ 3" by simp
  then have "length (decimal (year dt)) \<le> 3" by (rule decimal_length) simp
  ultimately show False by simp
qed

text \<open>
  What holds of the date normalizer. It returns a value for every string: an exception
  of the parser becomes the missing sentinel. For a parser that returns only valid
  dates with four-digit years the result is missing or has the shape \<^verbatim>\<open>DD-MM-YYYY\<close>.
  If the parser reads \<^verbatim>\<open>March 1, 2023\<close> as the first of March 2023, the text
  \<^verbatim>\<open>Commencement Date: March 1, 2023\<close>, alone or as a line of the scenario document,
  yields the commencement date \<^verbatim>\<open>01-03-2023\<close>.
\<close>

lemma normalize_date_four_digit_years:
  assumes contract: "\<And>v dt. parse v = Inr dt \<Longrightarrow> valid_datetime dt \<and> 1000 \<le> year dt"
  shows "(normalize_date parse v = None
            \<or> (\<exists>s. normalize_date parse v = Some s \<and> is_dd_mm_yyyy s))
       \<and> (\<forall>e. parse v = Inl e \<longrightarrow> normalize_date parse v = None)"
proof -
  have a: "normalize_date parse v = None
            \<or> (\<exists>s. normalize_date parse v = Some s \<and> is_dd_mm_yyyy s)"
  proof (cases "parse v")
    case (Inl e)
    then show ?thesis by (simp add: normalize_date_def)
  next
    case (Inr dt)
    then have "valid_datetime dt \<and> 1000 \<le> year dt" by (rule contract)
    then have "is_dd_mm_yyyy (strftime_d_m_Y dt)" by (simp add: strftime_shape)
    with Inr show ?thesis by (simp add: normalize_date_def)
  qed
  have b: "\<forall>e. parse v = Inl e \<longrightarrow> normalize_date parse v = None"
    by (simp add: normalize_date_def)
  show ?thesis by (intro conjI a b)
qed

lemma commencement_scenario:
  assumes p: "parse ''March 1, 2023'' = Inr \<lparr>year = 2023, month = 3, day = 1\<rparr>"
  shows "(\<exists>r. extract_lease_facts_from_text parse ''Commencement Date: March 1, 2023'' = Inr r
                   \<and> dict_get r ''lease_commencement_date'' = Some ''01-03-2023'')
       \<and> (\<exists>r. extract_lease_facts_from_text parse scenario_document = Inr r
                   \<and> dict_get r ''lease_commencement_date'' = Some ''01-03-2023'')"
proof -
  have 1: "first_match P_commencement ''Commencement Date: March 1, 2023''
      = Inr (Some ''March 1, 2023'')"
    by code_simp
  have 2: "strftime_d_m_Y \<lparr>year = 2023, month = 3, day = 1\<rparr> = ''01-03-2023''"
    by code_simp
  from p 2 have "normalize_date parse ''March 1, 2023'' = Some ''01-03-2023''"
    by (simp add: normalize_date_def)
  then have 3: "if_truthy (Some ''March 1, 2023'') (normalize_date parse) = Some ''01-03-2023''"
    by (simp add: if_truthy_def)
  show ?thesis
    using commencement_field [OF 1, of parse]
      commencement_field [OF scenario_document_commencement, of parse]
    unfolding 3 by (rule conjI)
qed

text \<open>
  Claim C6 does not hold of the code. The docstring of \<^verbatim>\<open>_normalize_date\<close> promises
  \<^verbatim>\<open>DD-MM-YYYY\<close>, but a year below 1000 is printed without padding: when the parser
  reads \<^verbatim>\<open>0099-01-05\<close> as the fifth of January of the year 99, the normalizer returns
  \<^verbatim>\<open>05-01-99\<close>, and so does the pipeline for the commencement date.
\<close>

theorem normalize_date_short_year:
  "normalize_date (\<lambda>v. if v = ''0099-01-05''
                        then Inr \<lparr>year = 99, month = 1, day = 5\<rparr> else Inl ParserError)
     ''0099-01-05'' = Some ''05-01-99''
   \<and> valid_datetime \<lparr>year = 99, month = 1, day = 5\<rparr>
   \<and> \<not> is_dd_mm_yyyy ''05-01-99''
   \<and> (\<exists>r. extract_lease_facts_from_text
             (\<lambda>v. if v = ''0099-01-05''
                   then Inr \<lparr>year = 99, month = 1, day = 5\<rparr> else Inl ParserError)
             ''Commencement Date: 0099-01-05'' = Inr r
          \<and> dict_get r ''lease_commencement_date'' = Some ''05-01-99'')"
proof -
  define p :: "string \<Rightarrow> error + datetime" where
    "p = (\<lambda>v. if v = ''0099-01-05''
               then Inr \<lparr>year = 99, month = 1, day = 5\<rparr> else Inl ParserError)"
  have s: "strftime_d_m_Y \<lparr>year = 99, month = 1, day = 5\<rparr> = ''05-01-99''"
    by code_simp
  have hit: "p ''0099-01-05'' = Inr \<lparr>year = 99, month = 1, day = 5\<rparr>"
    by (simp add: p_def)
  from hit s have 1: "normalize_date p ''0099-01-05'' = Some ''05-01-99''"
    by (simp add: normalize_date_def)
  have 2: "valid_datetime \<lparr>year = 99, month = 1, day = 5\<rparr>"
    by (simp add: valid_datetime_def)
  have 3: "\<not> is_dd_mm_yyyy ''05-01-99''"
    by (simp add: is_dd_mm_yyyy_def)
  have m: "first_match P_commencement ''Commencement Date: 0099-01-05'' = Inr (Some ''0099-01-05'')"
    by code_simp
  from 1 have t: "if_truthy (Some ''0099-01-05'') (normalize_date p) = Some ''05-01-99''"
    by (simp add: if_truthy_def)
  have 4: "\<exists>r. extract_lease_facts_from_text p ''Commencement Date: 0099-01-05'' = Inr r
          \<and> dict_get r ''lease_commencement_date'' = Some ''05-01-99''"
    using commencement_field [OF m, of p] unfolding t .
  show ?thesis
    by (intro conjI 1 [unfolded p_def] 2 3 4 [unfolded p_def])
qed

end
